theory Spec2Isabelle
  imports Main "HOL-Library.AList"
begin

text \<open>
  A shallow embedding of \<^verbatim>\<open>meta.go\<close> of the package \<^verbatim>\<open>charm\<close>: the metadata record of
  a charm, its validator \<^verbatim>\<open>Meta.Check\<close>, its decoder \<^verbatim>\<open>ReadMeta\<close> with the two
  checkers that the file defines, its encoder \<^verbatim>\<open>Meta.GetYAML\<close>, and the helpers
  \<^verbatim>\<open>Hooks\<close>, \<^verbatim>\<open>IsImplicit\<close> and \<^verbatim>\<open>ImplementedBy\<close>; followed by the properties
  proved of them.
\<close>

section \<open>Data model of meta.go\<close>

text \<open>
  \<^verbatim>\<open>RelationScope\<close>, \<^verbatim>\<open>RelationRole\<close> and \<^verbatim>\<open>StorageType\<close> are Go string types: a value
  of the type can be any string, the constants below are the named ones. Go's \<^verbatim>\<open>int\<close> is
  taken as the 64-bit integer; the only place where a value could leave that range is
  \<^verbatim>\<open>strconv.Atoi\<close>, which reports it as an error (see \<open>Atoi\<close> below).
\<close>

type_synonym RelationScope = string

abbreviation ScopeGlobal :: RelationScope where "ScopeGlobal \<equiv> ''global''"
abbreviation ScopeContainer :: RelationScope where "ScopeContainer \<equiv> ''container''"

type_synonym RelationRole = string

abbreviation RoleProvider :: RelationRole where "RoleProvider \<equiv> ''provider''"
abbreviation RoleRequirer :: RelationRole where "RoleRequirer \<equiv> ''requirer''"
abbreviation RolePeer :: RelationRole where "RolePeer \<equiv> ''peer''"

type_synonym StorageType = string

abbreviation StorageBlock :: StorageType where "StorageBlock \<equiv> ''block''"
abbreviation StorageFilesystem :: StorageType where "StorageFilesystem \<equiv> ''filesystem''"

text \<open>
  A Go slice or map field can be \<^verbatim>\<open>nil\<close>, which the code tells apart from an empty
  one (\<^verbatim>\<open>store.Filesystem != nil\<close>, \<^verbatim>\<open>meta.Requires != nil\<close>): such a field is an
  \<open>option\<close>, \<open>None\<close> for \<^verbatim>\<open>nil\<close>. A Go map is an association list; the code only ever
  builds one by storing under a key, so its keys are distinct, and ranging over it visits
  the entries in the order of the list.
\<close>

record Filesystem =
  Type :: string
  MkfsOptions :: "string list option"
  MountOptions :: "string list option"

record Storage =
  Name :: string
  Type :: StorageType
  Shared :: bool
  ReadOnly :: bool
  Persistent :: bool
  CountMin :: int
  CountMax :: int
  Location :: string
  Filesystem :: "Filesystem list option"

record Relation =
  Name :: string
  Role :: RelationRole
  Interface :: string
  Optional :: bool
  Limit :: int
  Scope :: RelationScope

record Meta =
  Name :: string
  Summary :: string
  Description :: string
  Subordinate :: bool
  Provides :: "(string \<times> Relation) list option"
  Requires :: "(string \<times> Relation) list option"
  Peers :: "(string \<times> Relation) list option"
  Format :: int
  OldRevision :: int
  Categories :: "string list option"
  Tags :: "string list option"
  Series :: string
  Storage :: "(string \<times> Storage) list option"

text \<open>Ranging over a \<^verbatim>\<open>nil\<close> map or slice visits nothing.\<close>

definition entries :: "'a list option \<Rightarrow> 'a list" where
  "entries m = (case m of None \<Rightarrow> [] | Some xs \<Rightarrow> xs)"

text \<open>
  Errors are values. The messages of \<^verbatim>\<open>fmt.Errorf\<close> are kept as one constructor per
  format string, with the arguments of the format; a panic of the Go runtime (a failed
  type assertion, a call on a nil interface, an explicit \<^verbatim>\<open>panic\<close>) is an error value
  too. Errors of the schema checkers carry no text.

  \<^item> \<open>SchemaError\<close>: an error of a checker of package \<^verbatim>\<open>schema\<close>;
    \<open>MetadataError e\<close>: \<^verbatim>\<open>"metadata: " + err.Error()\<close> of \<^verbatim>\<open>ReadMeta\<close>.
  \<^item> \<open>InvalidCount m\<close>: \<^verbatim>\<open>%s: invalid count %v\<close>;
    \<open>CountMismatch s\<close>: \<^verbatim>\<open>%s: value %q does not match 'm', 'm-n', or 'm-'\<close>;
    \<open>AtoiError s\<close>: the error of \<^verbatim>\<open>strconv.Atoi\<close>.
  \<^item> \<open>MismatchedRelationName\<close>: \<^verbatim>\<open>charm %q has mismatched relation name %q; expected %q\<close>;
    \<open>MismatchedRole\<close>: \<^verbatim>\<open>charm %q has mismatched role %q; expected %q\<close>.
  \<^item> \<open>ReservedRelationName\<close>: \<^verbatim>\<open>charm %q using a reserved relation name: %q\<close>;
    \<open>ReservedInterface\<close>: \<^verbatim>\<open>charm %q relation %q using a reserved interface: %q\<close>;
    \<open>DuplicatedRelationName\<close>: \<^verbatim>\<open>charm %q using a duplicated relation name: %q\<close>.
  \<^item> \<open>LacksContainerScope\<close>:
    \<^verbatim>\<open>subordinate charm %q lacks "requires" relation with container scope\<close>;
    \<open>InvalidSeries\<close>: \<^verbatim>\<open>charm %q declares invalid series: %q\<close>.
  \<^item> \<open>LocationNotForType\<close>:
    \<^verbatim>\<open>charm %q storage %q: location may not be specified for "type: %s"\<close>;
    \<open>FilesystemNotForType\<close>:
    \<^verbatim>\<open>charm %q storage %q: filesystem may not be specified for "type: %s"\<close>;
    \<open>TypeMustBeSpecified\<close>: \<^verbatim>\<open>charm %q storage %q: type must be specified\<close>;
    \<open>InvalidMinimumCount\<close>: \<^verbatim>\<open>charm %q storage %q: invalid minimum count %d\<close>;
    \<open>InvalidMaximumCount\<close>: \<^verbatim>\<open>charm %q storage %q: invalid maximum count %d\<close>;
    \<open>DuplicatedStorageName\<close>: \<^verbatim>\<open>charm %q storage %q: duplicated storage name\<close>.
  \<^item> \<open>PanicTypeAssertion\<close>: a failed assertion \<^verbatim>\<open>v.(T)\<close>; \<open>PanicNilCharm\<close>: a method call
    on a nil \<^verbatim>\<open>Charm\<close>; \<open>PanicUnknownRole\<close>, \<open>PanicUnknownScope\<close>: the two explicit
    panics of \<^verbatim>\<open>ImplementedBy\<close>.
\<close>

datatype error =
    SchemaError
  | MetadataError error
  | InvalidCount int
  | CountMismatch string
  | AtoiError string
  | MismatchedRelationName string string string
  | MismatchedRole string string string
  | ReservedRelationName string string
  | ReservedInterface string string string
  | DuplicatedRelationName string string
  | LacksContainerScope string
  | InvalidSeries string string
  | LocationNotForType string string string
  | FilesystemNotForType string string string
  | TypeMustBeSpecified string string
  | InvalidMinimumCount string string int
  | InvalidMaximumCount string string int
  | DuplicatedStorageName string string
  | PanicTypeAssertion
  | PanicNilCharm
  | PanicUnknownRole string
  | PanicUnknownScope string

section \<open>Relations: IsImplicit and ImplementedBy\<close>

definition IsImplicit :: "Relation \<Rightarrow> bool" where
  "IsImplicit r \<longleftrightarrow>
     Relation.Name r = ''juju-info'' \<and> Interface r = ''juju-info'' \<and> Role r = RoleProvider"

text \<open>
  \<^verbatim>\<open>Charm\<close> is an interface with a method \<^verbatim>\<open>Meta()\<close>. A charm is given by the record
  its \<^verbatim>\<open>Meta()\<close> returns; \<open>None\<close> is the nil interface, on which the call panics.
\<close>

type_synonym Charm = "Meta option"

definition Charm_Meta :: "Charm \<Rightarrow> error + Meta" where
  "Charm_Meta ch = (case ch of None \<Rightarrow> Inl PanicNilCharm | Some m \<Rightarrow> Inr m)"

definition ImplementedBy :: "Relation \<Rightarrow> Charm \<Rightarrow> error + bool" where
  "ImplementedBy r ch =
     (if IsImplicit r then Inr True
      else
        (case
           (if Role r = RoleProvider then map_sum id Provides (Charm_Meta ch)
            else if Role r = RoleRequirer then map_sum id Requires (Charm_Meta ch)
            else if Role r = RolePeer then map_sum id Peers (Charm_Meta ch)
            else Inl (PanicUnknownRole (Role r)))
         of
           Inl e \<Rightarrow> Inl e
         | Inr m \<Rightarrow>
             (case map_of (entries m) (Relation.Name r) of
                None \<Rightarrow> Inr False
              | Some rel \<Rightarrow>
                  if Interface rel = Interface r then
                    (if Scope r = ScopeGlobal then Inr (Scope rel \<noteq> ScopeContainer)
                     else if Scope r = ScopeContainer then Inr True
                     else Inl (PanicUnknownScope (Scope r)))
                  else Inr False)))"

section \<open>Hooks\<close>

text \<open>
  \<^verbatim>\<open>hooks.UnitHooks()\<close> and \<^verbatim>\<open>hooks.RelationHooks()\<close> come from the package
  \<^verbatim>\<open>hooks\<close>: the two lists of hook names are parameters. \<^verbatim>\<open>allHooks\<close> is the map
  that the Go code fills in place; here it is passed and returned.
  \<^verbatim>\<open>fmt.Sprintf("%s-%s", relName, hookName)\<close> is the concatenation with a dash.
\<close>

definition generateRelationHooks ::
  "string list \<Rightarrow> string \<Rightarrow> (string \<rightharpoonup> bool) \<Rightarrow> (string \<rightharpoonup> bool)" where
  "generateRelationHooks RelationHooks relName allHooks =
     fold (\<lambda>hookName a. a(relName @ ''-'' @ hookName \<mapsto> True)) RelationHooks allHooks"

definition Hooks :: "string list \<Rightarrow> string list \<Rightarrow> Meta \<Rightarrow> (string \<rightharpoonup> bool)" where
  "Hooks UnitHooks RelationHooks m =
     (let allHooks0 = fold (\<lambda>hookName a. a(hookName \<mapsto> True)) UnitHooks Map.empty;
          allHooks1 = fold (\<lambda>(hookName, _). generateRelationHooks RelationHooks hookName)
                        (entries (Provides m)) allHooks0;
          allHooks2 = fold (\<lambda>(hookName, _). generateRelationHooks RelationHooks hookName)
                        (entries (Requires m)) allHooks1;
          allHooks3 = fold (\<lambda>(hookName, _). generateRelationHooks RelationHooks hookName)
                        (entries (Peers m)) allHooks2
      in allHooks3)"

section \<open>The validator: Meta.Check\<close>

text \<open>\<^verbatim>\<open>strings.HasPrefix(s, prefix)\<close> of the Go library.\<close>

definition HasPrefix :: "string \<Rightarrow> string \<Rightarrow> bool" where
  "HasPrefix s pre \<longleftrightarrow> length pre \<le> length s \<and> take (length pre) s = pre"

definition reservedName :: "string \<Rightarrow> bool" where
  "reservedName name \<longleftrightarrow> name = ''juju'' \<or> HasPrefix name ''juju-''"

text \<open>
  The closure \<^verbatim>\<open>checkRelations\<close> of \<^verbatim>\<open>Check\<close>. It reads \<^verbatim>\<open>meta\<close> and updates the
  map \<^verbatim>\<open>names\<close> that the three calls share; every stored value of \<^verbatim>\<open>names\<close> is
  \<^verbatim>\<open>true\<close>, so the map is the set of its keys. It returns the error, or the updated
  set when the loop runs to its end.
\<close>

fun checkRelations ::
  "Meta \<Rightarrow> (string \<times> Relation) list \<Rightarrow> RelationRole \<Rightarrow> string set \<Rightarrow> error + string set" where
  "checkRelations meta [] role names = Inr names"
| "checkRelations meta ((name, rel) # src) role names =
     (if Relation.Name rel \<noteq> name then
        Inl (MismatchedRelationName (Meta.Name meta) (Relation.Name rel) name)
      else if Role rel \<noteq> role then
        Inl (MismatchedRole (Meta.Name meta) (Role rel) role)
      else if (\<not> Subordinate meta \<or> role \<noteq> RoleRequirer \<or> Scope rel \<noteq> ScopeContainer)
              \<and> reservedName name then
        Inl (ReservedRelationName (Meta.Name meta) name)
      else if role \<noteq> RoleRequirer \<and> reservedName (Interface rel) then
        Inl (ReservedInterface (Meta.Name meta) name (Interface rel))
      else if name \<in> names then
        Inl (DuplicatedRelationName (Meta.Name meta) name)
      else checkRelations meta src role (insert name names))"

text \<open>The loop over \<^verbatim>\<open>meta.Storage\<close>, with its own fresh \<^verbatim>\<open>names\<close>.\<close>

fun checkStorage :: "Meta \<Rightarrow> (string \<times> Storage) list \<Rightarrow> string set \<Rightarrow> error option" where
  "checkStorage meta [] names = None"
| "checkStorage meta ((name, store) # rest) names =
     (if Location store \<noteq> [] \<and> Storage.Type store \<noteq> StorageFilesystem then
        Some (LocationNotForType (Meta.Name meta) name (Storage.Type store))
      else if Storage.Filesystem store \<noteq> None \<and> Storage.Type store \<noteq> StorageFilesystem then
        Some (FilesystemNotForType (Meta.Name meta) name (Storage.Type store))
      else if Storage.Type store = [] then
        Some (TypeMustBeSpecified (Meta.Name meta) name)
      else if CountMin store < 0 then
        Some (InvalidMinimumCount (Meta.Name meta) name (CountMin store))
      else if CountMax store = 0 \<or> CountMax store < -1 then
        Some (InvalidMaximumCount (Meta.Name meta) name (CountMax store))
      else if name \<in> names then
        Some (DuplicatedStorageName (Meta.Name meta) name)
      else checkStorage meta rest (insert name names))"

text \<open>
  \<^verbatim>\<open>IsValidSeries\<close> is defined in another file of the package: it is the parameter
  \<open>validSeries\<close>. \<open>None\<close> is the \<^verbatim>\<open>nil\<close> error. The empty string is written \<open>[]\<close>.
\<close>

definition Check :: "(string \<Rightarrow> bool) \<Rightarrow> Meta \<Rightarrow> error option" where
  "Check validSeries meta =
     (case checkRelations meta (entries (Provides meta)) RoleProvider {} of
        Inl e \<Rightarrow> Some e
      | Inr names1 \<Rightarrow>
     (case checkRelations meta (entries (Requires meta)) RoleRequirer names1 of
        Inl e \<Rightarrow> Some e
      | Inr names2 \<Rightarrow>
     (case checkRelations meta (entries (Peers meta)) RolePeer names2 of
        Inl e \<Rightarrow> Some e
      | Inr names3 \<Rightarrow>
        if Subordinate meta \<and>
           \<not> (Requires meta \<noteq> None \<and>
              list_ex (\<lambda>(name, relationData). Scope relationData = ScopeContainer)
                (entries (Requires meta)))
        then Some (LacksContainerScope (Meta.Name meta))
        else if Series meta \<noteq> [] \<and> \<not> validSeries (Series meta)
        then Some (InvalidSeries (Meta.Name meta) (Series meta))
        else checkStorage meta (entries (Meta.Storage meta)) {})))"

section \<open>The value model and the checker combinators\<close>

text \<open>
  Modelled from the spec: the value model of the checkers (the package \<^verbatim>\<open>schema\<close>
  and the YAML library are not part of meta.go). A value of Go's
  \<^verbatim>\<open>interface{}\<close> that the checkers see is a \<open>val\<close>: the tagged tree of the
  specification (null, bool, integer, string, list, map from strings to values), and
  \<open>VCount\<close> for the \<^verbatim>\<open>[2]int\<close> that \<^verbatim>\<open>storageCountC\<close> returns. The \<^verbatim>\<open>path\<close>
  argument of \<^verbatim>\<open>Coerce\<close> only feeds error texts and is left out.
\<close>

datatype val =
    VNil
  | VBool bool
  | VInt int
  | VStr string
  | VList "val list"
  | VMap "(string \<times> val) list"
  | VCount int int

type_synonym checker = "val \<Rightarrow> error + val"

text \<open>\<^verbatim>\<open>m[k]\<close> on a Go map: the stored value, or \<^verbatim>\<open>nil\<close> for a missing key.\<close>

definition index :: "(string \<times> val) list \<Rightarrow> string \<Rightarrow> val" where
  "index m k = (case map_of m k of None \<Rightarrow> VNil | Some v \<Rightarrow> v)"

text \<open>Running a fallible function over a list; the first failure wins.\<close>

fun mapE :: "('a \<Rightarrow> error + 'b) \<Rightarrow> 'a list \<Rightarrow> error + 'b list" where
  "mapE f [] = Inr []"
| "mapE f (x # xs) =
     (case f x of
        Inl e \<Rightarrow> Inl e
      | Inr y \<Rightarrow> (case mapE f xs of Inl e \<Rightarrow> Inl e | Inr ys \<Rightarrow> Inr (y # ys)))"

text \<open>
  Modelled from the spec: the primitive checkers \<^verbatim>\<open>schema.String()\<close>,
  \<^verbatim>\<open>schema.Bool()\<close>, \<^verbatim>\<open>schema.Int()\<close> of package \<^verbatim>\<open>schema\<close>, which fail when
  the input is not exactly that scalar kind; and \<^verbatim>\<open>schema.Any()\<close>, which accepts
  every value.
\<close>

definition String_checker :: checker where
  "String_checker v = (case v of VStr s \<Rightarrow> Inr (VStr s) | _ \<Rightarrow> Inl SchemaError)"

definition Bool_checker :: checker where
  "Bool_checker v = (case v of VBool b \<Rightarrow> Inr (VBool b) | _ \<Rightarrow> Inl SchemaError)"

definition Int_checker :: checker where
  "Int_checker v = (case v of VInt i \<Rightarrow> Inr (VInt i) | _ \<Rightarrow> Inl SchemaError)"

definition Any_checker :: checker where
  "Any_checker v = Inr v"

text \<open>
  Modelled from the spec: \<^verbatim>\<open>schema.Const(x)\<close> of package \<^verbatim>\<open>schema\<close>, which accepts
  the value \<open>x\<close> only.
\<close>

definition Const_checker :: "val \<Rightarrow> checker" where
  "Const_checker x v = (if v = x then Inr v else Inl SchemaError)"

text \<open>
  Modelled from the spec: \<^verbatim>\<open>schema.OneOf(checkers...)\<close> of package \<^verbatim>\<open>schema\<close>,
  which tries the checkers left to right, returns the first success and, when all fail,
  the last failure.
\<close>

fun OneOf :: "checker list \<Rightarrow> checker" where
  "OneOf [] v = Inl SchemaError"
| "OneOf (c # cs) v =
     (case c v of
        Inr w \<Rightarrow> Inr w
      | Inl e \<Rightarrow> (case cs of [] \<Rightarrow> Inl e | _ \<Rightarrow> OneOf cs v))"

text \<open>
  Modelled from the spec: \<^verbatim>\<open>schema.List(checker)\<close> of package \<^verbatim>\<open>schema\<close>, which
  requires a sequence and applies the checker to every element, failing on the first
  element error.
\<close>

definition List_checker :: "checker \<Rightarrow> checker" where
  "List_checker c v =
     (case v of
        VList xs \<Rightarrow> (case mapE c xs of Inl e \<Rightarrow> Inl e | Inr ys \<Rightarrow> Inr (VList ys))
      | _ \<Rightarrow> Inl SchemaError)"

text \<open>
  Modelled from the spec: \<^verbatim>\<open>schema.StringMap(checker)\<close> of package \<^verbatim>\<open>schema\<close>,
  which requires a map with string keys and applies the checker to every value.
\<close>

definition StringMap :: "checker \<Rightarrow> checker" where
  "StringMap c v =
     (case v of
        VMap m \<Rightarrow>
          (case mapE (\<lambda>(k, x). case c x of Inl e \<Rightarrow> Inl e | Inr y \<Rightarrow> Inr (k, y)) m of
             Inl e \<Rightarrow> Inl e
           | Inr out \<Rightarrow> Inr (VMap out))
      | _ \<Rightarrow> Inl SchemaError)"

text \<open>
  Modelled from the spec: \<^verbatim>\<open>schema.FieldMap(fields, defaults)\<close> of package
  \<^verbatim>\<open>schema\<close>. The input must be a map; an input key that the fields \<open>fs\<close> do not declare is
  an error; for every declared key the checker runs on the input's value, or on the
  default when the input omits the key; a key whose default is the sentinel
  \<^verbatim>\<open>schema.Omit\<close> is absent from the output when the input omits it; a key absent from
  the input and without a default is checked as null.
\<close>

datatype default_value = Omit | Default val

fun FieldMap_fields ::
  "(string \<times> checker) list \<Rightarrow> (string \<times> default_value) list \<Rightarrow> (string \<times> val) list \<Rightarrow>
   error + (string \<times> val) list" where
  "FieldMap_fields [] defaults m = Inr []"
| "FieldMap_fields ((k, c) # fs) defaults m =
     (case (case map_of m k of
              Some x \<Rightarrow> Some x
            | None \<Rightarrow>
                (case map_of defaults k of
                   Some Omit \<Rightarrow> None
                 | Some (Default d) \<Rightarrow> Some d
                 | None \<Rightarrow> Some VNil))
      of
        None \<Rightarrow> FieldMap_fields fs defaults m
      | Some x \<Rightarrow>
          (case c x of
             Inl e \<Rightarrow> Inl e
           | Inr y \<Rightarrow>
               (case FieldMap_fields fs defaults m of
                  Inl e \<Rightarrow> Inl e
                | Inr out \<Rightarrow> Inr ((k, y) # out))))"

definition FieldMap ::
  "(string \<times> checker) list \<Rightarrow> (string \<times> default_value) list \<Rightarrow> checker" where
  "FieldMap fs defaults v =
     (case v of
        VMap m \<Rightarrow>
          if list_all (\<lambda>k. k \<in> set (map fst fs)) (map fst m) then
            (case FieldMap_fields fs defaults m of
               Inl e \<Rightarrow> Inl e
             | Inr out \<Rightarrow> Inr (VMap out))
          else Inl SchemaError
      | _ \<Rightarrow> Inl SchemaError)"

section \<open>The checkers of meta.go\<close>

definition stringC :: checker where
  "stringC = String_checker"

definition mapC :: checker where
  "mapC = StringMap Any_checker"

definition ifaceSchema :: checker where
  "ifaceSchema =
     FieldMap
       [(''interface'', String_checker),
        (''limit'', OneOf [Const_checker VNil, Int_checker]),
        (''scope'', OneOf [Const_checker (VStr ScopeGlobal), Const_checker (VStr ScopeContainer)]),
        (''optional'', Bool_checker)]
       [(''scope'', Default (VStr ScopeGlobal)),
        (''optional'', Default (VBool False))]"

text \<open>
  \<^verbatim>\<open>ifaceExpC.Coerce\<close>; \<open>limit\<close> is the field \<^verbatim>\<open>c.limit\<close>. The map \<^verbatim>\<open>m\<close> is the
  fresh output of \<^verbatim>\<open>mapC.Coerce\<close>, so storing into it changes nothing else.
\<close>

definition ifaceExpC_Coerce :: "val \<Rightarrow> checker" where
  "ifaceExpC_Coerce limit v =
     (case stringC v of
        Inr s \<Rightarrow>
          Inr (VMap [(''interface'', s), (''limit'', limit), (''optional'', VBool False),
                     (''scope'', VStr ScopeGlobal)])
      | Inl _ \<Rightarrow>
          (case mapC v of
             Inl e \<Rightarrow> Inl e
           | Inr v' \<Rightarrow>
               (case v' of
                  VMap m \<Rightarrow>
                    ifaceSchema
                      (VMap (if map_of m ''limit'' = None then AList.update ''limit'' limit m
                             else m))
                | _ \<Rightarrow> Inl PanicTypeAssertion)))"

definition ifaceExpander :: "val \<Rightarrow> checker" where
  "ifaceExpander limit = ifaceExpC_Coerce limit"

text \<open>
  \<^verbatim>\<open>storageCountRE\<close> is \<^verbatim>\<open>^([0-9]+)-([0-9]*)$\<close>. A digit is never a dash, so a string
  matches in one way only: its longest prefix of digits is group 1 and is not empty, a
  dash follows, and the rest is group 2, all digits. \<open>None\<close> is the \<^verbatim>\<open>nil\<close> that
  \<^verbatim>\<open>FindStringSubmatch\<close> returns for no match.
\<close>

definition isDigit :: "char \<Rightarrow> bool" where
  "isDigit c \<longleftrightarrow> c \<in> set ''0123456789''"

definition storageCountRE_FindStringSubmatch :: "string \<Rightarrow> (string \<times> string) option" where
  "storageCountRE_FindStringSubmatch s =
     (case dropWhile isDigit s of
        [] \<Rightarrow> None
      | c # rest \<Rightarrow>
          if c = CHR ''-'' \<and> takeWhile isDigit s \<noteq> [] \<and> list_all isDigit rest
          then Some (takeWhile isDigit s, rest)
          else None)"

text \<open>
  \<^verbatim>\<open>strconv.Atoi\<close> on a string of digits with an optional sign: the decimal value,
  or an error when the string has no digit, has another character, or its value does not
  fit Go's 64-bit \<^verbatim>\<open>int\<close>.
\<close>

definition digit_value :: "char \<Rightarrow> int" where
  "digit_value c = int (length (takeWhile (\<lambda>d. d \<noteq> c) ''0123456789''))"

definition digits_value :: "string \<Rightarrow> int" where
  "digits_value ds = foldl (\<lambda>n c. 10 * n + digit_value c) 0 ds"

definition Atoi :: "string \<Rightarrow> error + int" where
  "Atoi s =
     (let neg = (case s of c # _ \<Rightarrow> c = CHR ''-'' | [] \<Rightarrow> False);
          ds = (case s of c # rest \<Rightarrow> if c = CHR ''-'' \<or> c = CHR ''+'' then rest else s
                | [] \<Rightarrow> s);
          n = (if neg then - digits_value ds else digits_value ds)
      in if ds = [] \<or> \<not> list_all isDigit ds then Inl (AtoiError s)
         else if n < - (2 ^ 63) \<or> 2 ^ 63 - 1 < n then Inl (AtoiError s)
         else Inr n)"

definition storageCountC_Coerce :: checker where
  "storageCountC_Coerce v =
     (case OneOf [Int_checker, stringC] v of
        Inl e \<Rightarrow> Inl e
      | Inr s \<Rightarrow>
          (case s of
             VInt m \<Rightarrow> if m \<le> 0 then Inl (InvalidCount m) else Inr (VCount (- 1) m)
           | VStr str \<Rightarrow>
               (case storageCountRE_FindStringSubmatch str of
                  None \<Rightarrow> Inl (CountMismatch str)
                | Some (match1, match2) \<Rightarrow>
                    (case Atoi match1 of
                       Inl e \<Rightarrow> Inl e
                     | Inr m \<Rightarrow>
                         if length match2 = 0 then Inr (VCount m (- 1))
                         else (case Atoi match2 of
                                 Inl e \<Rightarrow> Inl e
                               | Inr n \<Rightarrow> Inr (VCount m n))))
           | _ \<Rightarrow> Inl PanicTypeAssertion))"

definition filesystemSchema :: checker where
  "filesystemSchema =
     FieldMap
       [(''type'', String_checker),
        (''mkfs-options'', List_checker String_checker),
        (''options'', List_checker String_checker)]
       [(''mkfs-options'', Omit), (''options'', Omit)]"

definition storageSchema :: checker where
  "storageSchema =
     FieldMap
       [(''required'', Bool_checker),
        (''shared'', Bool_checker),
        (''read-only'', Bool_checker),
        (''persistent'', Bool_checker),
        (''count'', storageCountC_Coerce),
        (''location'', String_checker),
        (''type'', OneOf [Const_checker (VStr StorageBlock), Const_checker (VStr StorageFilesystem)]),
        (''filesystem'', List_checker (OneOf [String_checker, filesystemSchema]))]
       [(''required'', Default (VBool False)),
        (''shared'', Default (VBool False)),
        (''read-only'', Default (VBool False)),
        (''persistent'', Default (VBool False)),
        (''count'', Omit),
        (''location'', Omit),
        (''filesystem'', Omit)]"

text \<open>
  \<^verbatim>\<open>charmSchema\<close>: the \<^verbatim>\<open>schema.Fields\<close> and the \<^verbatim>\<open>schema.Defaults\<close> literals
  of its \<^verbatim>\<open>schema.FieldMap\<close> call.
\<close>

definition charmSchema_Fields :: "(string \<times> checker) list" where
  "charmSchema_Fields =
     [(''name'', String_checker),
      (''summary'', String_checker),
      (''description'', String_checker),
      (''peers'', StringMap (ifaceExpander (VInt 1))),
      (''provides'', StringMap (ifaceExpander VNil)),
      (''requires'', StringMap (ifaceExpander (VInt 1))),
      (''revision'', Int_checker),
      (''format'', Int_checker),
      (''subordinate'', Bool_checker),
      (''categories'', List_checker String_checker),
      (''tags'', List_checker String_checker),
      (''series'', String_checker),
      (''storage'', StringMap storageSchema)]"

definition charmSchema_Defaults :: "(string \<times> default_value) list" where
  "charmSchema_Defaults =
     [(''provides'', Omit),
      (''requires'', Omit),
      (''peers'', Omit),
      (''revision'', Omit),
      (''format'', Default (VInt 1)),
      (''subordinate'', Omit),
      (''categories'', Omit),
      (''tags'', Omit),
      (''series'', Omit),
      (''storage'', Omit)]"

definition charmSchema :: checker where
  "charmSchema = FieldMap charmSchema_Fields charmSchema_Defaults"

section \<open>The decoder: ReadMeta\<close>

text \<open>
  Sequencing of fallible steps, and Go's one-result type assertions \<^verbatim>\<open>v.(T)\<close>, which
  panic when \<open>v\<close> does not hold a \<open>T\<close>.
\<close>

definition bindE :: "error + 'a \<Rightarrow> ('a \<Rightarrow> error + 'b) \<Rightarrow> error + 'b" where
  "bindE x f = (case x of Inl e \<Rightarrow> Inl e | Inr a \<Rightarrow> f a)"

definition assertString :: "val \<Rightarrow> error + string" where
  "assertString v = (case v of VStr s \<Rightarrow> Inr s | _ \<Rightarrow> Inl PanicTypeAssertion)"

definition assertBool :: "val \<Rightarrow> error + bool" where
  "assertBool v = (case v of VBool b \<Rightarrow> Inr b | _ \<Rightarrow> Inl PanicTypeAssertion)"

definition assertInt64 :: "val \<Rightarrow> error + int" where
  "assertInt64 v = (case v of VInt i \<Rightarrow> Inr i | _ \<Rightarrow> Inl PanicTypeAssertion)"

definition assertList :: "val \<Rightarrow> error + val list" where
  "assertList v = (case v of VList xs \<Rightarrow> Inr xs | _ \<Rightarrow> Inl PanicTypeAssertion)"

definition assertMap :: "val \<Rightarrow> error + (string \<times> val) list" where
  "assertMap v = (case v of VMap m \<Rightarrow> Inr m | _ \<Rightarrow> Inl PanicTypeAssertion)"

definition isPanic :: "error \<Rightarrow> bool" where
  "isPanic e =
     (case e of
        PanicTypeAssertion \<Rightarrow> True
      | PanicNilCharm \<Rightarrow> True
      | PanicUnknownRole _ \<Rightarrow> True
      | PanicUnknownScope _ \<Rightarrow> True
      | _ \<Rightarrow> False)"

definition parseStringList :: "val \<Rightarrow> error + string list option" where
  "parseStringList list =
     (if list = VNil then Inr None
      else bindE (assertList list) (\<lambda>slice.
           bindE (mapE assertString slice) (\<lambda>result.
           Inr (Some result))))"

text \<open>The body of the loop of \<^verbatim>\<open>parseRelations\<close>: the relation built for one entry.\<close>

definition parseRelations_entry :: "string \<Rightarrow> RelationRole \<Rightarrow> val \<Rightarrow> error + Relation" where
  "parseRelations_entry name role rel =
     bindE (assertMap rel) (\<lambda>relMap.
     bindE (assertString (index relMap ''interface'')) (\<lambda>iface.
     bindE (assertBool (index relMap ''optional'')) (\<lambda>optional.
     bindE (if index relMap ''scope'' \<noteq> VNil then assertString (index relMap ''scope'')
            else Inr []) (\<lambda>scope.
     bindE (if index relMap ''limit'' \<noteq> VNil then assertInt64 (index relMap ''limit'')
            else Inr 0) (\<lambda>limit.
     Inr \<lparr>Relation.Name = name, Role = role, Interface = iface, Optional = optional,
          Limit = limit, Scope = scope\<rparr>)))))"

fun parseRelations_loop ::
  "(string \<times> val) list \<Rightarrow> RelationRole \<Rightarrow> (string \<times> Relation) list \<Rightarrow>
   error + (string \<times> Relation) list" where
  "parseRelations_loop [] role result = Inr result"
| "parseRelations_loop ((name, rel) # rest) role result =
     (case parseRelations_entry name role rel of
        Inl e \<Rightarrow> Inl e
      | Inr relation \<Rightarrow> parseRelations_loop rest role (AList.update name relation result))"

definition parseRelations :: "val \<Rightarrow> RelationRole \<Rightarrow> error + (string \<times> Relation) list option" where
  "parseRelations relations role =
     (if relations = VNil then Inr None
      else bindE (assertMap relations) (\<lambda>m.
           bindE (parseRelations_loop m role []) (\<lambda>result.
           Inr (Some result))))"

text \<open>
  One element of the loop of \<^verbatim>\<open>parseFilesystem\<close>: the type switch appends a
  \<^verbatim>\<open>Filesystem\<close> for a string and for a map, and nothing (\<open>None\<close>) for any other
  element.
\<close>

definition parseFilesystem_elem :: "val \<Rightarrow> error + Filesystem option" where
  "parseFilesystem_elem elem =
     (case elem of
        VStr s \<Rightarrow> Inr (Some \<lparr>Filesystem.Type = s, MkfsOptions = None, MountOptions = None\<rparr>)
      | VMap e \<Rightarrow>
          bindE (assertString (index e ''type'')) (\<lambda>type.
          bindE (parseStringList (index e ''options'')) (\<lambda>mountOptions.
          bindE (parseStringList (index e ''mkfs-options'')) (\<lambda>mkfsOptions.
          Inr (Some \<lparr>Filesystem.Type = type, MkfsOptions = mkfsOptions,
                     MountOptions = mountOptions\<rparr>))))
      | _ \<Rightarrow> Inr None)"

fun parseFilesystem_loop :: "val list \<Rightarrow> Filesystem list \<Rightarrow> error + Filesystem list" where
  "parseFilesystem_loop [] result = Inr result"
| "parseFilesystem_loop (elem # rest) result =
     (case parseFilesystem_elem elem of
        Inl e \<Rightarrow> Inl e
      | Inr None \<Rightarrow> parseFilesystem_loop rest result
      | Inr (Some fs) \<Rightarrow> parseFilesystem_loop rest (result @ [fs]))"

definition parseFilesystem :: "val \<Rightarrow> error + Filesystem list option" where
  "parseFilesystem filesystems =
     (if filesystems = VNil then Inr None
      else bindE (assertList filesystems) (\<lambda>slice.
           bindE (parseFilesystem_loop slice []) (\<lambda>result.
           Inr (Some result))))"

text \<open>
  The body of the loop of \<^verbatim>\<open>parseStorage\<close>. \<^verbatim>\<open>storeMap["count"].([2]int)\<close> and
  \<^verbatim>\<open>storeMap["location"].(string)\<close> are two-result assertions: they do not panic.
\<close>

definition parseStorage_entry :: "string \<Rightarrow> val \<Rightarrow> error + Storage" where
  "parseStorage_entry name store =
     bindE (assertMap store) (\<lambda>storeMap.
     bindE (assertString (index storeMap ''type'')) (\<lambda>type.
     bindE (assertBool (index storeMap ''shared'')) (\<lambda>shared.
     bindE (assertBool (index storeMap ''read-only'')) (\<lambda>readOnly.
     bindE (assertBool (index storeMap ''persistent'')) (\<lambda>persistent.
     bindE (assertBool (index storeMap ''required'')) (\<lambda>required.
     let (countMin0, countMax) =
           (case index storeMap ''count'' of VCount a b \<Rightarrow> (a, b) | _ \<Rightarrow> (- 1, 1));
         countMin =
           (if countMin0 = - 1 then (if required then countMax else 0) else countMin0);
         location = (case index storeMap ''location'' of VStr loc \<Rightarrow> loc | _ \<Rightarrow> [])
     in bindE (parseFilesystem (index storeMap ''filesystem'')) (\<lambda>filesystem.
        Inr \<lparr>Storage.Name = name, Type = type, Shared = shared, ReadOnly = readOnly,
             Persistent = persistent, CountMin = countMin, CountMax = countMax,
             Location = location, Filesystem = filesystem\<rparr>)))))))"

fun parseStorage_loop ::
  "(string \<times> val) list \<Rightarrow> (string \<times> Storage) list \<Rightarrow> error + (string \<times> Storage) list" where
  "parseStorage_loop [] result = Inr result"
| "parseStorage_loop ((name, store) # rest) result =
     (case parseStorage_entry name store of
        Inl e \<Rightarrow> Inl e
      | Inr st \<Rightarrow> parseStorage_loop rest (AList.update name st result))"

definition parseStorage :: "val \<Rightarrow> error + (string \<times> Storage) list option" where
  "parseStorage stores =
     (if stores = VNil then Inr None
      else bindE (assertMap stores) (\<lambda>m.
           bindE (parseStorage_loop m []) (\<lambda>result.
           Inr (Some result))))"

text \<open>
  \<^verbatim>\<open>ReadMeta\<close>. Reading the bytes and \<^verbatim>\<open>yaml.Unmarshal\<close> are outside meta.go: the
  argument \<open>raw\<close> is the tree that \<^verbatim>\<open>yaml.Unmarshal\<close> produced. An error of
  \<^verbatim>\<open>charmSchema.Coerce\<close> is returned with the prefix \<^verbatim>\<open>metadata: \<close>; a panic is
  not an error value of Go and passes unwrapped.
\<close>

definition ReadMeta :: "(string \<Rightarrow> bool) \<Rightarrow> val \<Rightarrow> error + Meta" where
  "ReadMeta validSeries raw =
     (case charmSchema raw of
        Inl e \<Rightarrow> Inl (if isPanic e then e else MetadataError e)
      | Inr v \<Rightarrow>
          bindE (assertMap v) (\<lambda>m.
          bindE (assertString (index m ''name'')) (\<lambda>name.
          bindE (assertString (index m ''summary'')) (\<lambda>summary.
          bindE (assertString (index m ''description'')) (\<lambda>description.
          bindE (parseRelations (index m ''provides'') RoleProvider) (\<lambda>provides.
          bindE (parseRelations (index m ''requires'') RoleRequirer) (\<lambda>requires.
          bindE (parseRelations (index m ''peers'') RolePeer) (\<lambda>peers.
          bindE (assertInt64 (index m ''format'')) (\<lambda>format.
          bindE (parseStringList (index m ''categories'')) (\<lambda>categories.
          bindE (parseStringList (index m ''tags'')) (\<lambda>tags.
          bindE (if index m ''subordinate'' \<noteq> VNil then assertBool (index m ''subordinate'')
                 else Inr False) (\<lambda>subordinate.
          bindE (if index m ''revision'' \<noteq> VNil then assertInt64 (index m ''revision'')
                 else Inr 0) (\<lambda>oldRevision.
          bindE (case map_of m ''series'' of
                   Some series \<Rightarrow> if series \<noteq> VNil then assertString series else Inr []
                 | None \<Rightarrow> Inr []) (\<lambda>series.
          bindE (parseStorage (index m ''storage'')) (\<lambda>storage.
          let meta = \<lparr>Meta.Name = name, Summary = summary, Description = description,
                      Subordinate = subordinate, Provides = provides, Requires = requires,
                      Peers = peers, Format = format, OldRevision = oldRevision,
                      Categories = categories, Tags = tags, Series = series,
                      Storage = storage\<rparr>
          in (case Check validSeries meta of
                Some err \<Rightarrow> Inl err
              | None \<Rightarrow> Inr meta))))))))))))))))"

section \<open>The encoder: GetYAML\<close>

text \<open>
  \<^verbatim>\<open>GetYAML\<close> returns a Go struct with \<^verbatim>\<open>yaml\<close> field tags. The model returns the tree
  that the YAML library writes for that struct and reads back: one map entry per field
  under the name of its tag, and no entry for a field tagged \<^verbatim>\<open>omitempty\<close> whose value
  is the zero value of its type (false, the empty string, a nil pointer, a map or slice
  of length 0).
\<close>

definition omitempty :: "string \<Rightarrow> val \<Rightarrow> bool \<Rightarrow> (string \<times> val) list" where
  "omitempty key v isZero = (if isZero then [] else [(key, v)])"

definition marshaledRelation_GetYAML :: "Relation \<Rightarrow> val" where
  "marshaledRelation_GetYAML r =
     (let noLimit = (if Role r = RoleProvider then 0 else 1) in
      if \<not> Optional r \<and> Limit r = noLimit \<and> Scope r = ScopeGlobal then VStr (Interface r)
      else
        VMap ([(''interface'', VStr (Interface r))]
              @ omitempty ''limit'' (VInt (Limit r)) (Limit r = noLimit)
              @ omitempty ''optional'' (VBool (Optional r)) (\<not> Optional r)
              @ omitempty ''scope'' (VStr (if Scope r \<noteq> ScopeGlobal then Scope r else []))
                  ((if Scope r \<noteq> ScopeGlobal then Scope r else []) = [])))"

text \<open>
  The closure \<^verbatim>\<open>marshaledRelations\<close> of \<^verbatim>\<open>Meta.GetYAML\<close>: a fresh map with one store
  per entry of \<open>rs\<close>.
\<close>

definition marshaledRelations :: "(string \<times> Relation) list option \<Rightarrow> (string \<times> val) list" where
  "marshaledRelations rs =
     fold (\<lambda>(name, r) mrs. AList.update name (marshaledRelation_GetYAML r) mrs) (entries rs) []"

definition Meta_GetYAML :: "Meta \<Rightarrow> val" where
  "Meta_GetYAML m =
     VMap ([(''name'', VStr (Meta.Name m)),
            (''summary'', VStr (Summary m)),
            (''description'', VStr (Description m))]
           @ omitempty ''provides'' (VMap (marshaledRelations (Provides m)))
               (length (marshaledRelations (Provides m)) = 0)
           @ omitempty ''requires'' (VMap (marshaledRelations (Requires m)))
               (length (marshaledRelations (Requires m)) = 0)
           @ omitempty ''peers'' (VMap (marshaledRelations (Peers m)))
               (length (marshaledRelations (Peers m)) = 0)
           @ omitempty ''categories'' (VList (map VStr (entries (Categories m))))
               (length (entries (Categories m)) = 0)
           @ omitempty ''tags'' (VList (map VStr (entries (Tags m))))
               (length (entries (Tags m)) = 0)
           @ omitempty ''subordinate'' (VBool (Subordinate m)) (\<not> Subordinate m)
           @ omitempty ''series'' (VStr (Series m)) (Series m = []))"

section \<open>Auxiliary predicates\<close>

text \<open>
  The conditions under which one pass of the loops of \<open>Check\<close> goes on to the next
  entry, and the part of \<open>Check\<close> that follows the three calls of \<open>checkRelations\<close>.
  They are used to state lemmas about the loops.
\<close>

definition relation_accepted :: "Meta \<Rightarrow> RelationRole \<Rightarrow> string \<times> Relation \<Rightarrow> bool" where
  "relation_accepted meta role = (\<lambda>(name, rel).
     Relation.Name rel = name \<and> Role rel = role \<and>
     \<not> ((\<not> Subordinate meta \<or> role \<noteq> RoleRequirer \<or> Scope rel \<noteq> ScopeContainer)
          \<and> reservedName name) \<and>
     \<not> (role \<noteq> RoleRequirer \<and> reservedName (Interface rel)))"

definition storage_rejected :: "Storage \<Rightarrow> bool" where
  "storage_rejected store \<longleftrightarrow>
     Location store \<noteq> [] \<and> Storage.Type store \<noteq> StorageFilesystem \<or>
     Storage.Filesystem store \<noteq> None \<and> Storage.Type store \<noteq> StorageFilesystem \<or>
     Storage.Type store = [] \<or> CountMin store < 0 \<or>
     CountMax store = 0 \<or> CountMax store < -1"

definition relations_pass :: "Meta \<Rightarrow> bool" where
  "relations_pass m \<longleftrightarrow>
     list_all (relation_accepted m RoleProvider) (entries (Provides m)) \<and>
     list_all (relation_accepted m RoleRequirer) (entries (Requires m)) \<and>
     list_all (relation_accepted m RolePeer) (entries (Peers m)) \<and>
     distinct (map fst (entries (Provides m) @ entries (Requires m) @ entries (Peers m)))"

definition Check_tail :: "(string \<Rightarrow> bool) \<Rightarrow> Meta \<Rightarrow> error option" where
  "Check_tail v meta =
     (if Subordinate meta \<and>
           \<not> (Requires meta \<noteq> None \<and>
              list_ex (\<lambda>(name, relationData). Scope relationData = ScopeContainer)
                (entries (Requires meta)))
        then Some (LacksContainerScope (Meta.Name meta))
        else if Series meta \<noteq> [] \<and> \<not> v (Series meta)
        then Some (InvalidSeries (Meta.Name meta) (Series meta))
        else checkStorage meta (entries (Meta.Storage meta)) {})"

section \<open>Example records\<close>

definition example_relation :: "string \<Rightarrow> RelationRole \<Rightarrow> string \<Rightarrow> RelationScope \<Rightarrow> Relation" where
  "example_relation name role iface scope =
     \<lparr>Relation.Name = name, Role = role, Interface = iface, Optional = False,
      Limit = (if role = RoleProvider then 0 else 1), Scope = scope\<rparr>"

definition example_storage :: "string \<Rightarrow> StorageType \<Rightarrow> string \<Rightarrow> Filesystem list option \<Rightarrow> Storage" where
  "example_storage name type location filesystem =
     \<lparr>Storage.Name = name, Type = type, Shared = False, ReadOnly = False, Persistent = False,
      CountMin = 0, CountMax = 1, Location = location, Filesystem = filesystem\<rparr>"

definition example_meta ::
  "bool \<Rightarrow> (string \<times> Relation) list option \<Rightarrow> (string \<times> Relation) list option \<Rightarrow>
   (string \<times> Relation) list option \<Rightarrow> (string \<times> Storage) list option \<Rightarrow> Meta" where
  "example_meta subordinate provides requires peers storage =
     \<lparr>Meta.Name = ''wordpress'', Summary = ''Blog engine'', Description = ''A pretty popular blog engine'',
      Subordinate = subordinate, Provides = provides, Requires = requires, Peers = peers,
      Format = 1, OldRevision = 0, Categories = None, Tags = None, Series = [],
      Storage = storage\<rparr>"

text \<open>Example documents: the tree of a metadata.yaml with the three required fields.\<close>

definition example_doc :: "(string \<times> val) list \<Rightarrow> val" where
  "example_doc sections =
     VMap ([(''name'', VStr ''wordpress''), (''summary'', VStr ''Blog engine''),
            (''description'', VStr ''A pretty popular blog engine'')] @ sections)"

definition example_storage_doc :: "(string \<times> val) list \<Rightarrow> val" where
  "example_storage_doc settings =
     example_doc [(''storage'', VMap [(''data'', VMap ((''type'', VStr StorageBlock) # settings))])]"

text \<open>The pairs (CountMin, CountMax) of the storage entries of a decoded record.\<close>

definition count_ranges :: "error + Meta \<Rightarrow> error + (int \<times> int) list" where
  "count_ranges res =
     map_sum id (\<lambda>m. map (\<lambda>(name, store). (CountMin store, CountMax store))
                      (entries (Meta.Storage m))) res"

text \<open>
  The value that \<open>FieldMap_fields\<close> hands to the checker of a key: the input's value, else
  the default, else null; \<open>None\<close> when the key is omitted.
\<close>

definition resolve :: "(string \<times> default_value) list \<Rightarrow> (string \<times> val) list \<Rightarrow> string \<Rightarrow> val option" where
  "resolve defaults m k =
     (case map_of m k of
        Some x \<Rightarrow> Some x
      | None \<Rightarrow>
          (case map_of defaults k of
             Some Omit \<Rightarrow> None
           | Some (Default d) \<Rightarrow> Some d
           | None \<Rightarrow> Some VNil))"

text \<open>A relation entry whose scope is one of the two named scopes.\<close>

definition scope_known :: "string \<times> Relation \<Rightarrow> bool" where
  "scope_known = (\<lambda>(name, r). Scope r = ScopeGlobal \<or> Scope r = ScopeContainer)"

text \<open>
  The limit that \<open>charmSchema\<close> passes to \<open>ifaceExpander\<close> for the mapping of a role: nil
  for provides, 1 for requires and peers.
\<close>

definition role_limit :: "RelationRole \<Rightarrow> val" where
  "role_limit role = (if role = RoleProvider then VNil else VInt 1)"

text \<open>
  A relation entry as the decoder builds it for the mapping of \<open>role\<close>: a known scope,
  the key as its name, and the role of the mapping.
\<close>

definition relation_decodable :: "RelationRole \<Rightarrow> string \<times> Relation \<Rightarrow> bool" where
  "relation_decodable role = (\<lambda>(n, r). scope_known (n, r) \<and> Relation.Name r = n \<and> Role r = role)"

text \<open>
  What a record becomes when it is encoded and decoded again: a field that \<open>Meta_GetYAML\<close>
  does not write comes back as the decoder's default, and an empty map or slice, which
  \<^verbatim>\<open>omitempty\<close> leaves out, comes back as nil.
\<close>

definition dropEmpty :: "'a list option \<Rightarrow> 'a list option" where
  "dropEmpty x = (if entries x = [] then None else x)"

definition after_roundtrip :: "Meta \<Rightarrow> Meta" where
  "after_roundtrip R =
     R\<lparr>Provides := dropEmpty (Provides R), Requires := dropEmpty (Requires R),
       Peers := dropEmpty (Peers R), Format := 1, OldRevision := 0,
       Categories := dropEmpty (Categories R), Tags := dropEmpty (Tags R),
       Storage := None\<rparr>"

text \<open>The entries of the map that \<open>Meta_GetYAML\<close> returns.\<close>

definition GetYAML_fields :: "Meta \<Rightarrow> (string \<times> val) list" where
  "GetYAML_fields m =
          ([(''name'', VStr (Meta.Name m)),
            (''summary'', VStr (Summary m)),
            (''description'', VStr (Description m))]
           @ omitempty ''provides'' (VMap (marshaledRelations (Provides m)))
               (length (marshaledRelations (Provides m)) = 0)
           @ omitempty ''requires'' (VMap (marshaledRelations (Requires m)))
               (length (marshaledRelations (Requires m)) = 0)
           @ omitempty ''peers'' (VMap (marshaledRelations (Peers m)))
               (length (marshaledRelations (Peers m)) = 0)
           @ omitempty ''categories'' (VList (map VStr (entries (Categories m))))
               (length (entries (Categories m)) = 0)
           @ omitempty ''tags'' (VList (map VStr (entries (Tags m))))
               (length (entries (Tags m)) = 0)
           @ omitempty ''subordinate'' (VBool (Subordinate m)) (\<not> Subordinate m)
           @ omitempty ''series'' (VStr (Series m)) (Series m = []))"

section \<open>Evaluation of the definitions\<close>

text \<open>The defining equations, collected for the evaluation of concrete inputs.\<close>

lemmas example_defs = example_relation_def example_storage_def example_meta_def
lemmas Check_eval = Check_def entries_def reservedName_def HasPrefix_def

lemmas checker_defs = String_checker_def Bool_checker_def Int_checker_def Any_checker_def
  Const_checker_def List_checker_def StringMap_def FieldMap_def stringC_def mapC_def

lemmas schema_defs = ifaceSchema_def ifaceExpC_Coerce_def ifaceExpander_def
  filesystemSchema_def storageSchema_def charmSchema_Fields_def charmSchema_Defaults_def
  charmSchema_def

lemmas count_defs = storageCountC_Coerce_def storageCountRE_FindStringSubmatch_def isDigit_def
  Atoi_def digits_value_def digit_value_def

lemmas assert_defs = bindE_def assertString_def assertBool_def assertInt64_def assertList_def
  assertMap_def index_def isPanic_def

lemmas parse_defs = parseStringList_def parseRelations_entry_def parseRelations_def
  parseFilesystem_elem_def parseFilesystem_def parseStorage_entry_def parseStorage_def
  ReadMeta_def

lemmas encode_defs = omitempty_def marshaledRelation_GetYAML_def marshaledRelations_def
  Meta_GetYAML_def

lemmas decode_eval = checker_defs schema_defs count_defs assert_defs parse_defs
  Check_def entries_def reservedName_def HasPrefix_def

lemmas example_doc_defs = example_doc_def example_storage_doc_def count_ranges_def

section \<open>Properties of ImplementedBy and Hooks\<close>

text \<open>
  C10: for every relation \<open>r\<close> with \<open>IsImplicit r\<close> and every charm \<open>ch\<close>,
  \<open>ImplementedBy r ch\<close> returns true, and it does so without looking at \<open>ch\<close>: the
  result is the same for every charm, the nil interface (on which \<^verbatim>\<open>ch.Meta()\<close> would
  panic) included.
\<close>

theorem ImplementedBy_implicit:
  assumes "IsImplicit r"
  shows "ImplementedBy r ch = Inr True"
  using assms by (simp add: ImplementedBy_def)

theorem ImplementedBy_implicit_witness:
  "IsImplicit \<lparr>Relation.Name = ''juju-info'', Role = RoleProvider, Interface = ''juju-info'',
      Optional = False, Limit = 0, Scope = ScopeGlobal\<rparr> \<and>
   ImplementedBy \<lparr>Relation.Name = ''juju-info'', Role = RoleProvider, Interface = ''juju-info'',
      Optional = False, Limit = 0, Scope = ScopeGlobal\<rparr> None = Inr True"
proof -
  have h: "IsImplicit \<lparr>Relation.Name = ''juju-info'', Role = RoleProvider,
      Interface = ''juju-info'', Optional = False, Limit = 0, Scope = ScopeGlobal\<rparr>"
    by (simp add: IsImplicit_def)
  show ?thesis using h ImplementedBy_implicit [OF h, of None] by simp
qed

lemma fold_set_true_keeps:
  "a k = Some True \<Longrightarrow> fold (\<lambda>h a. a(f h \<mapsto> True)) hs a k = Some True"
  by (induction hs arbitrary: a) auto

lemma fold_set_true_member:
  "h \<in> set hs \<Longrightarrow> fold (\<lambda>h a. a(f h \<mapsto> True)) hs a (f h) = Some True"
  by (induction hs arbitrary: a) (auto simp: fold_set_true_keeps)

lemma fold_set_true_values:
  "\<forall>k. a k \<noteq> Some False \<Longrightarrow> fold (\<lambda>h a. a(f h \<mapsto> True)) hs a k \<noteq> Some False"
  by (induction hs arbitrary: a) auto

lemma generateRelationHooks_keeps:
  "a k = Some True \<Longrightarrow> generateRelationHooks R n a k = Some True"
  unfolding generateRelationHooks_def by (rule fold_set_true_keeps)

lemma generateRelationHooks_member:
  "H \<in> set R \<Longrightarrow> generateRelationHooks R n a (n @ ''-'' @ H) = Some True"
  unfolding generateRelationHooks_def
  by (rule fold_set_true_member [where f = "\<lambda>h. n @ ''-'' @ h"])

lemma generateRelationHooks_values:
  "\<forall>k. a k \<noteq> Some False \<Longrightarrow> generateRelationHooks R n a k \<noteq> Some False"
  unfolding generateRelationHooks_def by (rule fold_set_true_values)

lemma relation_hooks_keeps:
  "a k = Some True \<Longrightarrow>
   fold (\<lambda>(hookName, _). generateRelationHooks R hookName) rs a k = Some True"
  by (induction rs arbitrary: a) (auto simp: generateRelationHooks_keeps)

lemma relation_hooks_member:
  "(n, r) \<in> set rs \<Longrightarrow> H \<in> set R \<Longrightarrow>
   fold (\<lambda>(hookName, _). generateRelationHooks R hookName) rs a (n @ ''-'' @ H) = Some True"
proof (induction rs arbitrary: a)
  case Nil
  then show ?case by simp
next
  case (Cons p rs)
  show ?case
  proof (cases "p = (n, r)")
    case True
    have "generateRelationHooks R n a (n @ ''-'' @ H) = Some True"
      using Cons.prems(2) by (rule generateRelationHooks_member)
    then have "fold (\<lambda>(hookName, _). generateRelationHooks R hookName) rs
                 (generateRelationHooks R n a) (n @ ''-'' @ H) = Some True"
      by (rule relation_hooks_keeps)
    then show ?thesis by (simp add: True)
  next
    case False
    then have "(n, r) \<in> set rs" using Cons.prems(1) by simp
    from Cons.IH [OF this Cons.prems(2)] show ?thesis by simp
  qed
qed

lemma relation_hooks_values:
  "\<forall>k. a k \<noteq> Some False \<Longrightarrow>
   fold (\<lambda>(hookName, _). generateRelationHooks R hookName) rs a k \<noteq> Some False"
proof (induction rs arbitrary: a)
  case Nil
  then show ?case by simp
next
  case (Cons p rs)
  obtain n r where p: "p = (n, r)" by (cases p)
  have "\<forall>k. generateRelationHooks R n a k \<noteq> Some False"
    using Cons.prems generateRelationHooks_values by blast
  from Cons.IH [OF this] show ?case by (simp add: p)
qed

text \<open>
  C9: for every metadata record, every value stored in the map that \<open>Hooks\<close> returns is
  true, the map holds every unit hook name, and for every relation name \<open>N\<close> of the
  provides, requires and peers mappings and every relation hook name \<open>H\<close> it holds the
  key \<open>N-H\<close>.
\<close>

theorem Hooks_complete_and_true:
  "(\<forall>k v. Hooks U R m k = Some v \<longrightarrow> v = True) \<and>
   (\<forall>h \<in> set U. Hooks U R m h = Some True) \<and>
   (\<forall>(N, r) \<in> set (entries (Provides m)) \<union> set (entries (Requires m)) \<union> set (entries (Peers m)).
      \<forall>H \<in> set R. Hooks U R m (N @ ''-'' @ H) = Some True)"
proof -
  let ?g = "\<lambda>rs. fold (\<lambda>(hookName, _). generateRelationHooks R hookName) rs"
  let ?a0 = "fold (\<lambda>hookName a. a(hookName \<mapsto> True)) U Map.empty"
  have H: "Hooks U R m = ?g (entries (Peers m)) (?g (entries (Requires m)) (?g (entries (Provides m)) ?a0))"
    by (simp add: Hooks_def)
  have "\<forall>k. ?a0 k \<noteq> Some False"
    by (intro allI fold_set_true_values [where f = "\<lambda>h. h"]) simp
  then have "\<forall>k. ?g (entries (Provides m)) ?a0 k \<noteq> Some False"
    by (simp add: relation_hooks_values)
  then have "\<forall>k. ?g (entries (Requires m)) (?g (entries (Provides m)) ?a0) k \<noteq> Some False"
    by (simp add: relation_hooks_values)
  then have "\<forall>k. Hooks U R m k \<noteq> Some False"
    unfolding H by (simp add: relation_hooks_values)
  then have 1: "\<forall>k v. Hooks U R m k = Some v \<longrightarrow> v = True"
    by (metis (full_types))
  have 2: "Hooks U R m h = Some True" if "h \<in> set U" for h
  proof -
    have "?a0 h = Some True"
      using that by (rule fold_set_true_member [where f = "\<lambda>h. h"])
    then show ?thesis unfolding H by (intro relation_hooks_keeps)
  qed
  have 3: "Hooks U R m (N @ ''-'' @ h) = Some True"
    if x: "(N, r) \<in> set (entries (Provides m)) \<union> set (entries (Requires m)) \<union> set (entries (Peers m))"
      and h: "h \<in> set R" for N r h
  proof -
    consider "(N, r) \<in> set (entries (Provides m))" | "(N, r) \<in> set (entries (Requires m))"
      | "(N, r) \<in> set (entries (Peers m))" using x by blast
    then show ?thesis
    proof cases
      case 1
      then show ?thesis unfolding H
        by (intro relation_hooks_keeps relation_hooks_member [OF _ h])
    next
      case 2
      then show ?thesis unfolding H
        by (intro relation_hooks_keeps relation_hooks_member [OF _ h])
    next
      case 3
      then show ?thesis unfolding H
        by (intro relation_hooks_member [OF _ h])
    qed
  qed
  show ?thesis using 1 2 3 by blast
qed

theorem Hooks_complete_and_true_witness:
  "Hooks [''install''] [''joined'']
     \<lparr>Meta.Name = ''c'', Summary = ''s'', Description = ''d'', Subordinate = False,
      Provides = Some [(''db'', \<lparr>Relation.Name = ''db'', Role = RoleProvider, Interface = ''mysql'',
          Optional = False, Limit = 0, Scope = ScopeGlobal\<rparr>)],
      Requires = None, Peers = None, Format = 1, OldRevision = 0, Categories = None,
      Tags = None, Series = [], Storage = None\<rparr> ''db-joined'' = Some True"
  using Hooks_complete_and_true [of "[''install'']" "[''joined'']"
     "\<lparr>Meta.Name = ''c'', Summary = ''s'', Description = ''d'', Subordinate = False,
      Provides = Some [(''db'', \<lparr>Relation.Name = ''db'', Role = RoleProvider, Interface = ''mysql'',
          Optional = False, Limit = 0, Scope = ScopeGlobal\<rparr>)],
      Requires = None, Peers = None, Format = 1, OldRevision = 0, Categories = None,
      Tags = None, Series = [], Storage = None\<rparr>"]
  by (simp add: entries_def)

section \<open>Properties of Check\<close>

lemma checkRelations_Inr_iff:
  "checkRelations meta src role names = Inr names' \<longleftrightarrow>
     list_all (relation_accepted meta role) src \<and> distinct (map fst src) \<and>
     fst ` set src \<inter> names = {} \<and> names' = names \<union> fst ` set src"
proof (induction src arbitrary: names)
  case Nil
  then show ?case by auto
next
  case (Cons p src)
  obtain name rel where p: "p = (name, rel)" by (cases p)
  show ?case
    unfolding p using Cons.IH [of "insert name names"]
    by (auto simp: relation_accepted_def)
qed

lemma checkRelations_rejects:
  assumes "x \<in> set src" "\<not> relation_accepted meta role x"
  shows "\<exists>e. checkRelations meta src role names = Inl e"
proof (cases "checkRelations meta src role names")
  case (Inl e)
  then show ?thesis by blast
next
  case (Inr n')
  then have "list_all (relation_accepted meta role) src"
    by (simp add: checkRelations_Inr_iff)
  with assms show ?thesis by (simp add: list_all_iff)
qed

lemma checkRelations_ReservedInterface:
  "checkRelations meta src role names = Inl (ReservedInterface c n i) \<Longrightarrow>
   role \<noteq> RoleRequirer \<and> reservedName i \<and> (\<exists>rel. (n, rel) \<in> set src \<and> Interface rel = i)"
  by (induction meta src role names rule: checkRelations.induct)
     (auto split: if_splits)

lemma checkRelations_ReservedRelationName:
  "checkRelations meta src role names = Inl (ReservedRelationName c n) \<Longrightarrow>
   reservedName n \<and>
   (\<exists>rel. (n, rel) \<in> set src \<and>
      (\<not> Subordinate meta \<or> role \<noteq> RoleRequirer \<or> Scope rel \<noteq> ScopeContainer))"
  by (induction meta src role names rule: checkRelations.induct)
     (auto split: if_splits)

lemma checkRelations_not_LacksContainerScope:
  "checkRelations meta src role names \<noteq> Inl (LacksContainerScope c)"
  by (induction meta src role names rule: checkRelations.induct) auto

lemma checkStorage_not_LacksContainerScope:
  "checkStorage meta sts names \<noteq> Some (LacksContainerScope c)"
  by (induction meta sts names rule: checkStorage.induct) auto

lemma checkRelations_duplicate:
  "list_all (relation_accepted meta role) src \<Longrightarrow>
   checkRelations meta src role names = Inl e \<Longrightarrow>
   \<exists>n \<in> fst ` set src. e = DuplicatedRelationName (Meta.Name meta) n"
proof (induction src arbitrary: names)
  case Nil
  then show ?case by simp
next
  case (Cons p src)
  obtain name rel where p: "p = (name, rel)" by (cases p)
  show ?case using Cons.prems Cons.IH [of "insert name names"]
    unfolding p by (auto simp: relation_accepted_def split: if_splits)
qed

lemma checkStorage_None_iff:
  "checkStorage meta sts names = None \<longleftrightarrow>
     list_all (\<lambda>(name, store). \<not> storage_rejected store) sts \<and> distinct (map fst sts) \<and>
     fst ` set sts \<inter> names = {}"
proof (induction sts arbitrary: names)
  case Nil
  then show ?case by simp
next
  case (Cons p sts)
  obtain name store where p: "p = (name, store)" by (cases p)
  show ?case unfolding p using Cons.IH [of "insert name names"]
    by (auto simp: storage_rejected_def)
qed

lemma checkRelations_meta_cong:
  "Subordinate meta' = Subordinate meta \<Longrightarrow> Meta.Name meta' = Meta.Name meta \<Longrightarrow>
   checkRelations meta' src role names = checkRelations meta src role names"
  by (induction meta src role names rule: checkRelations.induct) auto

lemma checkStorage_meta_cong:
  "Meta.Name meta' = Meta.Name meta \<Longrightarrow>
   checkStorage meta' sts names = checkStorage meta sts names"
  by (induction meta sts names rule: checkStorage.induct) auto

lemma checkRelations_cases:
  obtains (err) e where "checkRelations meta src role names = Inl e"
      "\<not> (list_all (relation_accepted meta role) src \<and> distinct (map fst src) \<and>
          fst ` set src \<inter> names = {})"
  | (ok) "checkRelations meta src role names = Inr (names \<union> fst ` set src)"
      "list_all (relation_accepted meta role) src" "distinct (map fst src)"
      "fst ` set src \<inter> names = {}"
proof (cases "checkRelations meta src role names")
  case (Inl e)
  then have "\<not> (list_all (relation_accepted meta role) src \<and> distinct (map fst src) \<and>
          fst ` set src \<inter> names = {})"
    using checkRelations_Inr_iff [of meta src role names "names \<union> fst ` set src"] by auto
  with Inl show ?thesis by (rule err)
next
  case (Inr n')
  then show ?thesis using checkRelations_Inr_iff [of meta src role names n'] ok by blast
qed

lemma Check_relations_pass:
  assumes "relations_pass m"
  shows "Check v m = Check_tail v m"
proof -
  let ?P = "entries (Provides m)" and ?R = "entries (Requires m)" and ?Q = "entries (Peers m)"
  from assms have a: "list_all (relation_accepted m RoleProvider) ?P"
    "list_all (relation_accepted m RoleRequirer) ?R" "list_all (relation_accepted m RolePeer) ?Q"
    and d: "distinct (map fst (?P @ ?R @ ?Q))"
    by (simp_all add: relations_pass_def)
  from d have dP: "distinct (map fst ?P)" and dR: "distinct (map fst ?R)"
    and dQ: "distinct (map fst ?Q)"
    and i1: "fst ` set ?R \<inter> ({} \<union> fst ` set ?P) = {}"
    and i2: "fst ` set ?Q \<inter> (({} \<union> fst ` set ?P) \<union> fst ` set ?R) = {}"
    by auto
  have 1: "checkRelations m ?P RoleProvider {} = Inr ({} \<union> fst ` set ?P)"
    using a(1) dP by (simp only: checkRelations_Inr_iff) simp
  have 2: "checkRelations m ?R RoleRequirer ({} \<union> fst ` set ?P)
            = Inr (({} \<union> fst ` set ?P) \<union> fst ` set ?R)"
    using a(2) dR i1 by (simp only: checkRelations_Inr_iff)
  have 3: "checkRelations m ?Q RolePeer (({} \<union> fst ` set ?P) \<union> fst ` set ?R)
            = Inr ((({} \<union> fst ` set ?P) \<union> fst ` set ?R) \<union> fst ` set ?Q)"
    using a(3) dQ i2 by (simp only: checkRelations_Inr_iff)
  show ?thesis
    unfolding Check_def Check_tail_def by (simp only: 1 2 3 sum.case)
qed

lemma Check_relations_fail:
  assumes "\<not> relations_pass m"
  shows "\<exists>e. Check v m = Some e \<and>
     (checkRelations m (entries (Provides m)) RoleProvider {} = Inl e \<or>
      (\<exists>n. checkRelations m (entries (Requires m)) RoleRequirer n = Inl e) \<or>
      (\<exists>n. checkRelations m (entries (Peers m)) RolePeer n = Inl e))"
proof -
  let ?P = "entries (Provides m)" and ?R = "entries (Requires m)" and ?Q = "entries (Peers m)"
  show ?thesis
  proof (cases rule: checkRelations_cases [of m ?P RoleProvider "{}"])
    case (err e)
    then have "Check v m = Some e" unfolding Check_def by (simp only: err(1) sum.case)
    with err(1) show ?thesis by blast
  next
    case ok
    note ok1 = ok
    show ?thesis
    proof (cases rule: checkRelations_cases [of m ?R RoleRequirer "{} \<union> fst ` set ?P"])
      case (err e)
      then have "Check v m = Some e" unfolding Check_def by (simp only: ok1(1) err(1) sum.case)
      with err(1) show ?thesis by blast
    next
      case ok
      note ok2 = ok
      show ?thesis
      proof (cases rule: checkRelations_cases
          [of m ?Q RolePeer "({} \<union> fst ` set ?P) \<union> fst ` set ?R"])
        case (err e)
        then have "Check v m = Some e" unfolding Check_def by (simp only: ok1(1) ok2(1) err(1) sum.case)
        with err(1) show ?thesis by blast
      next
        case ok
        have "distinct (map fst (?P @ ?R @ ?Q))"
          using ok1(3,4) ok2(3,4) ok(3,4) by auto
        then have "relations_pass m"
          using ok1(2) ok2(2) ok(2) by (simp add: relations_pass_def)
        with assms show ?thesis by simp
      qed
    qed
  qed
qed

lemma Check_None_iff:
  "Check v m = None \<longleftrightarrow> relations_pass m \<and> Check_tail v m = None"
  using Check_relations_pass [of m v] Check_relations_fail [of m v] by fastforce

lemma checkStorage_not_relation_error:
  "checkStorage meta sts names \<noteq> Some (ReservedInterface c n i)"
  "checkStorage meta sts names \<noteq> Some (ReservedRelationName c n)"
  by (induction meta sts names rule: checkStorage.induct) auto

lemma Check_tail_not_relation_error:
  "Check_tail v m \<noteq> Some (ReservedInterface c n i)"
  "Check_tail v m \<noteq> Some (ReservedRelationName c n)"
  by (simp_all add: Check_tail_def checkStorage_not_relation_error)

lemma Check_error_origin:
  assumes "Check v m = Some e"
  shows "checkRelations m (entries (Provides m)) RoleProvider {} = Inl e \<or>
      (\<exists>n. checkRelations m (entries (Requires m)) RoleRequirer n = Inl e) \<or>
      (\<exists>n. checkRelations m (entries (Peers m)) RolePeer n = Inl e) \<or>
      Check_tail v m = Some e"
proof (cases "relations_pass m")
  case True
  then show ?thesis using assms by (simp add: Check_relations_pass)
next
  case False
  from Check_relations_fail [OF this, of v] assms show ?thesis by auto
qed

lemma reservedName_juju_info: "reservedName ''juju-info''"
  by (simp add: reservedName_def HasPrefix_def)

lemma relation_member_rejected:
  assumes "x \<in> set (entries (Provides m)) \<and> \<not> relation_accepted m RoleProvider x \<or>
           x \<in> set (entries (Requires m)) \<and> \<not> relation_accepted m RoleRequirer x \<or>
           x \<in> set (entries (Peers m)) \<and> \<not> relation_accepted m RolePeer x"
  shows "Check v m \<noteq> None"
proof -
  have "\<not> relations_pass m"
    using assms by (auto simp: relations_pass_def list_all_iff)
  then show ?thesis by (simp add: Check_None_iff)
qed

lemma Check_tail_LacksContainerScope:
  assumes "Check_tail v m = Some (LacksContainerScope c)"
  shows "Subordinate m \<and>
     \<not> list_ex (\<lambda>(name, relationData). Scope relationData = ScopeContainer) (entries (Requires m))"
proof -
  have "Requires m = None \<Longrightarrow> entries (Requires m) = []" by (simp add: entries_def)
  with assms show ?thesis
    by (auto simp: Check_tail_def checkStorage_not_LacksContainerScope split: if_splits)
qed

lemma Check_without_Storage:
  assumes "checkStorage m (entries (Meta.Storage m)) {} = None"
  shows "Check v m = Check v (m\<lparr>Meta.Storage := None\<rparr>)"
proof -
  let ?m = "m\<lparr>Meta.Storage := None\<rparr>"
  have c: "checkRelations ?m src role names = checkRelations m src role names"
    for src role names by (rule checkRelations_meta_cong) simp_all
  have s: "checkStorage ?m (entries (Meta.Storage ?m)) {} = None"
    by (simp add: entries_def)
  have f: "Provides ?m = Provides m" "Requires ?m = Requires m" "Peers ?m = Peers m"
    "Subordinate ?m = Subordinate m" "Series ?m = Series m" "Meta.Name ?m = Meta.Name m"
    by simp_all
  show ?thesis
    unfolding Check_def [of v ?m] Check_def [of v m]
    by (simp only: c s f assms)
qed

text \<open>
  C2 as stated fails: the record whose provides mapping holds the implicit relation
  juju-info under its own name is rejected for using a reserved relation name, with the
  subordinate flag unset and with it set; so is the document \<open>provides: {juju-info: juju-info}\<close>
  by \<open>ReadMeta\<close>.
\<close>

theorem Check_implicit_relation_counterexample:
  "IsImplicit (example_relation ''juju-info'' RoleProvider ''juju-info'' ScopeGlobal) \<and>
   Check (\<lambda>series. True)
     (example_meta False
        (Some [(''juju-info'', example_relation ''juju-info'' RoleProvider ''juju-info'' ScopeGlobal)])
        None None None)
     = Some (ReservedRelationName ''wordpress'' ''juju-info'') \<and>
   Check (\<lambda>series. True)
     (example_meta True
        (Some [(''juju-info'', example_relation ''juju-info'' RoleProvider ''juju-info'' ScopeGlobal)])
        (Some [(''host'', example_relation ''host'' RoleRequirer ''juju-info'' ScopeContainer)])
        None None)
     = Some (ReservedRelationName ''wordpress'' ''juju-info'') \<and>
   ReadMeta (\<lambda>series. True)
     (example_doc [(''provides'', VMap [(''juju-info'', VStr ''juju-info'')])])
     = Inl (ReservedRelationName ''wordpress'' ''juju-info'')"
  by (simp add: IsImplicit_def example_defs example_doc_defs decode_eval)

text \<open>
  C2 as amended: \<open>Check\<close> never consults \<open>IsImplicit\<close>. A relation \<open>r\<close> with
  \<open>IsImplicit r\<close> gets no exemption from the reserved-name check: \<open>Check\<close> rejects every
  record that holds \<open>r\<close> in its provides, requires or peers mapping, whatever the
  subordinate flag and whatever the key it is stored under; and when \<open>r\<close> is the first
  entry that the loop over the provides mapping visits, stored under its own name, the
  error is the reserved-relation-name error.
\<close>

theorem Check_rejects_implicit_relation:
  assumes "IsImplicit r"
  shows "((k, r) \<in> set (entries (Provides m)) \<union> set (entries (Requires m))
                  \<union> set (entries (Peers m)) \<longrightarrow> Check v m \<noteq> None) \<and>
         (Provides m = Some ((Relation.Name r, r) # rest) \<longrightarrow>
            Check v m = Some (ReservedRelationName (Meta.Name m) ''juju-info''))"
proof (intro conjI impI)
  assume mem: "(k, r) \<in> set (entries (Provides m)) \<union> set (entries (Requires m))
                  \<union> set (entries (Peers m))"
  have "\<not> relation_accepted m role (k, r)" for role
    using assms reservedName_juju_info
    by (auto simp: relation_accepted_def IsImplicit_def)
  with mem show "Check v m \<noteq> None"
    by (intro relation_member_rejected [where x = "(k, r)"]) auto
next
  assume "Provides m = Some ((Relation.Name r, r) # rest)"
  with assms reservedName_juju_info
  show "Check v m = Some (ReservedRelationName (Meta.Name m) ''juju-info'')"
    by (simp add: Check_def entries_def IsImplicit_def)
qed

theorem Check_rejects_implicit_relation_witness:
  "IsImplicit (example_relation ''juju-info'' RoleProvider ''juju-info'' ScopeGlobal) \<and>
   Check (\<lambda>series. True)
     (example_meta False
        (Some [(''juju-info'', example_relation ''juju-info'' RoleProvider ''juju-info'' ScopeGlobal)])
        None None None) = Some (ReservedRelationName ''wordpress'' ''juju-info'') \<and>
   Check (\<lambda>series. True)
     (example_meta False None None
        (Some [(''info'', example_relation ''juju-info'' RoleProvider ''juju-info'' ScopeGlobal)])
        None) \<noteq> None"
proof -
  let ?r = "example_relation ''juju-info'' RoleProvider ''juju-info'' ScopeGlobal"
  let ?m = "example_meta False (Some [(''juju-info'', ?r)]) None None None"
  let ?m' = "example_meta False None None (Some [(''info'', ?r)]) None"
  have h: "IsImplicit ?r" by (simp add: IsImplicit_def example_defs)
  have 1: "Check (\<lambda>series. True) ?m = Some (ReservedRelationName ''wordpress'' ''juju-info'')"
    using Check_rejects_implicit_relation [OF h, of "''juju-info''" ?m "\<lambda>series. True" "[]"]
    by (simp add: example_defs)
  have 2: "Check (\<lambda>series. True) ?m' \<noteq> None"
    using Check_rejects_implicit_relation [OF h, of "''info''" ?m' "\<lambda>series. True" "[]"]
    by (simp add: example_meta_def entries_def)
  from h 1 2 show ?thesis by simp
qed

text \<open>
  C4: \<open>Check\<close> rejects a record that has a relation with a reserved name (\<open>juju\<close>, or a
  name that starts with \<open>juju-\<close>), unless the record is subordinate, the relation is in the
  requires mapping and its scope is container; it rejects a record that has a relation with a
  reserved interface name in the provides or peers mapping; and the reserved-interface
  error is never raised for an entry of the requires mapping: when \<open>Check\<close> returns it, the
  named relation is an entry of provides or peers with that interface. Likewise the
  reserved-name error is only returned for an entry that is not exempt.
\<close>

theorem Check_reserved_names:
  "(((name, rel) \<in> set (entries (Provides m)) \<or> (name, rel) \<in> set (entries (Peers m)) \<or>
     (name, rel) \<in> set (entries (Requires m)) \<and>
       \<not> (Subordinate m \<and> Scope rel = ScopeContainer)) \<and>
    reservedName name \<longrightarrow> Check v m \<noteq> None) \<and>
   (((name, rel) \<in> set (entries (Provides m)) \<or> (name, rel) \<in> set (entries (Peers m))) \<and>
    reservedName (Interface rel) \<longrightarrow> Check v m \<noteq> None) \<and>
   (Check v m = Some (ReservedInterface c n i) \<longrightarrow>
      reservedName i \<and>
      (\<exists>rel'. ((n, rel') \<in> set (entries (Provides m)) \<or> (n, rel') \<in> set (entries (Peers m))) \<and>
         Interface rel' = i)) \<and>
   (Check v m = Some (ReservedRelationName c n) \<longrightarrow>
      reservedName n \<and>
      (\<exists>rel'. (n, rel') \<in> set (entries (Provides m)) \<or> (n, rel') \<in> set (entries (Peers m)) \<or>
         (n, rel') \<in> set (entries (Requires m)) \<and>
           \<not> (Subordinate m \<and> Scope rel' = ScopeContainer)))"
proof (intro conjI impI)
  assume a: "((name, rel) \<in> set (entries (Provides m)) \<or> (name, rel) \<in> set (entries (Peers m)) \<or>
     (name, rel) \<in> set (entries (Requires m)) \<and>
       \<not> (Subordinate m \<and> Scope rel = ScopeContainer)) \<and> reservedName name"
  show "Check v m \<noteq> None"
    by (rule relation_member_rejected [where x = "(name, rel)"])
       (use a in \<open>auto simp: relation_accepted_def\<close>)
next
  assume a: "((name, rel) \<in> set (entries (Provides m)) \<or> (name, rel) \<in> set (entries (Peers m))) \<and>
    reservedName (Interface rel)"
  show "Check v m \<noteq> None"
    by (rule relation_member_rejected [where x = "(name, rel)"])
       (use a in \<open>auto simp: relation_accepted_def\<close>)
next
  assume a: "Check v m = Some (ReservedInterface c n i)"
  from Check_error_origin [OF a] Check_tail_not_relation_error(1) [of v m c n i]
  have o: "checkRelations m (entries (Provides m)) RoleProvider {} = Inl (ReservedInterface c n i) \<or>
      (\<exists>ns. checkRelations m (entries (Requires m)) RoleRequirer ns = Inl (ReservedInterface c n i)) \<or>
      (\<exists>ns. checkRelations m (entries (Peers m)) RolePeer ns = Inl (ReservedInterface c n i))"
    by blast
  then show "reservedName i"
    by (auto dest: checkRelations_ReservedInterface)
  from o show "\<exists>rel'. ((n, rel') \<in> set (entries (Provides m)) \<or>
      (n, rel') \<in> set (entries (Peers m))) \<and> Interface rel' = i"
    by (auto dest: checkRelations_ReservedInterface)
next
  assume a: "Check v m = Some (ReservedRelationName c n)"
  from Check_error_origin [OF a] Check_tail_not_relation_error(2) [of v m c n]
  have o: "checkRelations m (entries (Provides m)) RoleProvider {} = Inl (ReservedRelationName c n) \<or>
      (\<exists>ns. checkRelations m (entries (Requires m)) RoleRequirer ns = Inl (ReservedRelationName c n)) \<or>
      (\<exists>ns. checkRelations m (entries (Peers m)) RolePeer ns = Inl (ReservedRelationName c n))"
    by blast
  then show "reservedName n"
    by (auto dest: checkRelations_ReservedRelationName)
  from o show "\<exists>rel'. (n, rel') \<in> set (entries (Provides m)) \<or> (n, rel') \<in> set (entries (Peers m)) \<or>
         (n, rel') \<in> set (entries (Requires m)) \<and>
           \<not> (Subordinate m \<and> Scope rel' = ScopeContainer)"
    by (auto dest!: checkRelations_ReservedRelationName)
qed

theorem Check_reserved_names_witness:
  "reservedName ''juju-foo'' \<and>
   Check (\<lambda>series. True)
     (example_meta False None
        (Some [(''juju-foo'', example_relation ''juju-foo'' RoleRequirer ''http'' ScopeContainer)])
        None None) \<noteq> None \<and>
   Check (\<lambda>series. True)
     (example_meta True None
        (Some [(''juju-foo'', example_relation ''juju-foo'' RoleRequirer ''juju-info'' ScopeContainer)])
        None None) = None"
proof -
  let ?r = "example_relation ''juju-foo'' RoleRequirer ''http'' ScopeContainer"
  let ?m = "example_meta False None (Some [(''juju-foo'', ?r)]) None None"
  have r: "reservedName ''juju-foo''" by (simp add: reservedName_def HasPrefix_def)
  have "((''juju-foo'', ?r) \<in> set (entries (Provides ?m)) \<or>
         (''juju-foo'', ?r) \<in> set (entries (Peers ?m)) \<or>
         (''juju-foo'', ?r) \<in> set (entries (Requires ?m)) \<and>
           \<not> (Subordinate ?m \<and> Scope ?r = ScopeContainer)) \<and> reservedName ''juju-foo''"
    using r by (simp add: example_defs entries_def)
  with Check_reserved_names [of "''juju-foo''" ?r ?m "\<lambda>series. True"]
  have "Check (\<lambda>series. True) ?m \<noteq> None" by blast
  moreover have "Check (\<lambda>series. True)
     (example_meta True None
        (Some [(''juju-foo'', example_relation ''juju-foo'' RoleRequirer ''juju-info'' ScopeContainer)])
        None None) = None"
    by (simp add: example_defs Check_eval)
  ultimately show ?thesis using r by simp
qed

text \<open>
  C5: for every record with subordinate set, the subordinate rule of \<open>Check\<close> succeeds
  exactly when an entry of the requires mapping has container scope. With such an entry
  \<open>Check\<close> never returns the container-scope error. Without one (all requires relations
  of another scope, or the mapping empty or nil) \<open>Check\<close> fails, and when the three
  calls of \<open>checkRelations\<close> before the rule pass, the error is the one that names
  container scope.
\<close>

theorem Check_subordinate_rule:
  assumes "Subordinate m"
  shows "((\<exists>(n, r) \<in> set (entries (Requires m)). Scope r = ScopeContainer) \<longrightarrow>
            (\<forall>c. Check v m \<noteq> Some (LacksContainerScope c))) \<and>
         (\<not> (\<exists>(n, r) \<in> set (entries (Requires m)). Scope r = ScopeContainer) \<longrightarrow>
            Check v m \<noteq> None \<and>
            (checkRelations m (entries (Provides m)) RoleProvider {} = Inr names1 \<and>
             checkRelations m (entries (Requires m)) RoleRequirer names1 = Inr names2 \<and>
             checkRelations m (entries (Peers m)) RolePeer names2 = Inr names3 \<longrightarrow>
             Check v m = Some (LacksContainerScope (Meta.Name m))))"
proof (intro conjI impI allI)
  fix c
  assume ex: "\<exists>(n, r) \<in> set (entries (Requires m)). Scope r = ScopeContainer"
  show "Check v m \<noteq> Some (LacksContainerScope c)"
  proof
    assume "Check v m = Some (LacksContainerScope c)"
    from Check_error_origin [OF this]
    have "Check_tail v m = Some (LacksContainerScope c)"
      by (simp add: checkRelations_not_LacksContainerScope)
    from Check_tail_LacksContainerScope [OF this] ex show False
      by (simp add: list_ex_iff)
  qed
next
  assume no: "\<not> (\<exists>(n, r) \<in> set (entries (Requires m)). Scope r = ScopeContainer)"
  then have t: "Check_tail v m = Some (LacksContainerScope (Meta.Name m))"
    using assms by (simp add: Check_tail_def list_ex_iff)
  then show "Check v m \<noteq> None" by (simp add: Check_None_iff)
  assume "checkRelations m (entries (Provides m)) RoleProvider {} = Inr names1 \<and>
     checkRelations m (entries (Requires m)) RoleRequirer names1 = Inr names2 \<and>
     checkRelations m (entries (Peers m)) RolePeer names2 = Inr names3"
  then have "Check v m = Check_tail v m"
    unfolding Check_def Check_tail_def by (simp only: sum.case)
  with t show "Check v m = Some (LacksContainerScope (Meta.Name m))" by simp
qed

theorem Check_subordinate_rule_witness:
  "Check (\<lambda>series. True)
     (example_meta True None
        (Some [(''host'', example_relation ''host'' RoleRequirer ''juju-info'' ScopeContainer)])
        None None) = None \<and>
   Check (\<lambda>series. True)
     (example_meta True None
        (Some [(''host'', example_relation ''host'' RoleRequirer ''juju-info'' ScopeGlobal)])
        None None) = Some (LacksContainerScope ''wordpress'') \<and>
   Check (\<lambda>series. True) (example_meta True None None None None)
     = Some (LacksContainerScope ''wordpress'')"
proof -
  let ?g = "example_meta True None
        (Some [(''host'', example_relation ''host'' RoleRequirer ''juju-info'' ScopeGlobal)])
        None None"
  let ?n = "example_meta True None None None None"
  have 1: "Check (\<lambda>series. True) ?g = Some (LacksContainerScope ''wordpress'')"
    using Check_subordinate_rule [of ?g "\<lambda>series. True" "{}" "{''host''}" "{''host''}"]
    by (simp add: example_defs entries_def reservedName_def HasPrefix_def)
  have 2: "Check (\<lambda>series. True) ?n = Some (LacksContainerScope ''wordpress'')"
    using Check_subordinate_rule [of ?n "\<lambda>series. True" "{}" "{}" "{}"]
    by (simp add: example_defs entries_def)
  have 3: "Check (\<lambda>series. True)
     (example_meta True None
        (Some [(''host'', example_relation ''host'' RoleRequirer ''juju-info'' ScopeContainer)])
        None None) = None"
    by (simp add: example_defs Check_eval)
  from 1 2 3 show ?thesis by simp
qed

text \<open>
  C6: \<open>Check\<close> rejects every record in which a relation name occurs in more than one of
  the provides, requires and peers mappings, or twice overall: the set \<open>names\<close> is shared
  by the three calls of \<open>checkRelations\<close>.
\<close>

theorem Check_rejects_shared_relation_name:
  assumes "(\<exists>n. n \<in> fst ` set (entries (Provides m)) \<and> n \<in> fst ` set (entries (Requires m)) \<or>
                n \<in> fst ` set (entries (Provides m)) \<and> n \<in> fst ` set (entries (Peers m)) \<or>
                n \<in> fst ` set (entries (Requires m)) \<and> n \<in> fst ` set (entries (Peers m))) \<or>
           \<not> distinct (map fst (entries (Provides m) @ entries (Requires m) @ entries (Peers m)))"
  shows "Check v m \<noteq> None"
proof -
  have "\<not> distinct (map fst (entries (Provides m) @ entries (Requires m) @ entries (Peers m)))"
    using assms by auto
  then have "\<not> relations_pass m" by (simp add: relations_pass_def)
  then show ?thesis by (simp add: Check_None_iff)
qed

theorem Check_rejects_shared_relation_name_witness:
  "Check (\<lambda>series. True)
     (example_meta False
        (Some [(''db'', example_relation ''db'' RoleProvider ''mysql'' ScopeGlobal)])
        (Some [(''db'', example_relation ''db'' RoleRequirer ''mysql'' ScopeGlobal)])
        None None) = Some (DuplicatedRelationName ''wordpress'' ''db'')"
proof -
  let ?m = "example_meta False
        (Some [(''db'', example_relation ''db'' RoleProvider ''mysql'' ScopeGlobal)])
        (Some [(''db'', example_relation ''db'' RoleRequirer ''mysql'' ScopeGlobal)])
        None None"
  have "Check (\<lambda>series. True) ?m \<noteq> None"
    by (rule Check_rejects_shared_relation_name) (simp add: example_defs entries_def)
  then show ?thesis by (simp add: example_defs Check_eval)
qed

text \<open>
  C8 as stated fails: a storage entry of type block whose filesystem list is present but
  empty has no location, a type, countMin 0 and countMax 1, so none of the listed
  conditions holds, yet \<open>Check\<close> rejects it; \<open>ReadMeta\<close> builds this entry from a document
  with \<open>filesystem: []\<close>.
\<close>

theorem Check_storage_empty_filesystem_counterexample:
  "Storage.Filesystem (example_storage ''data'' StorageBlock [] (Some [])) = Some [] \<and>
   Location (example_storage ''data'' StorageBlock [] (Some [])) = [] \<and>
   Storage.Type (example_storage ''data'' StorageBlock [] (Some [])) = StorageBlock \<and>
   CountMin (example_storage ''data'' StorageBlock [] (Some [])) = 0 \<and>
   CountMax (example_storage ''data'' StorageBlock [] (Some [])) = 1 \<and>
   Check (\<lambda>series. True)
     (example_meta False None None None
        (Some [(''data'', example_storage ''data'' StorageBlock [] (Some []))]))
     = Some (FilesystemNotForType ''wordpress'' ''data'' StorageBlock) \<and>
   ReadMeta (\<lambda>series. True) (example_storage_doc [(''filesystem'', VList [])])
     = Inl (FilesystemNotForType ''wordpress'' ''data'' StorageBlock)"
  by (simp add: example_defs example_doc_defs decode_eval)

text \<open>
  C8 as amended: \<open>Check\<close> fails for a record with a storage entry whose location is set
  while its type is not filesystem, whose filesystem list is present (not nil, be it
  empty) while its type is not filesystem, whose type is empty, whose countMin is negative,
  or whose countMax is 0 or less than -1. When no entry of the storage mapping is of that
  kind (and the keys of the mapping are distinct, as the keys of a Go map are), the storage
  checks pass: \<open>Check\<close> returns what it returns for the record without its storage.
\<close>

theorem Check_storage_rules:
  "((name, store) \<in> set (entries (Meta.Storage m)) \<and>
      (Location store \<noteq> [] \<and> Storage.Type store \<noteq> StorageFilesystem \<or>
       Storage.Filesystem store \<noteq> None \<and> Storage.Type store \<noteq> StorageFilesystem \<or>
       Storage.Type store = [] \<or> CountMin store < 0 \<or>
       CountMax store = 0 \<or> CountMax store < -1) \<longrightarrow>
    Check v m \<noteq> None) \<and>
   (distinct (map fst (entries (Meta.Storage m))) \<and>
    (\<forall>(name, store) \<in> set (entries (Meta.Storage m)).
       \<not> (Location store \<noteq> [] \<and> Storage.Type store \<noteq> StorageFilesystem \<or>
          Storage.Filesystem store \<noteq> None \<and> Storage.Type store \<noteq> StorageFilesystem \<or>
          Storage.Type store = [] \<or> CountMin store < 0 \<or>
          CountMax store = 0 \<or> CountMax store < -1)) \<longrightarrow>
    Check v m = Check v (m\<lparr>Meta.Storage := None\<rparr>))"
proof (intro conjI impI)
  assume a: "(name, store) \<in> set (entries (Meta.Storage m)) \<and>
      (Location store \<noteq> [] \<and> Storage.Type store \<noteq> StorageFilesystem \<or>
       Storage.Filesystem store \<noteq> None \<and> Storage.Type store \<noteq> StorageFilesystem \<or>
       Storage.Type store = [] \<or> CountMin store < 0 \<or>
       CountMax store = 0 \<or> CountMax store < -1)"
  then have "storage_rejected store" unfolding storage_rejected_def by blast
  with a have "checkStorage m (entries (Meta.Storage m)) {} \<noteq> None"
    unfolding checkStorage_None_iff list_all_iff by blast
  then have "Check_tail v m \<noteq> None" by (simp add: Check_tail_def)
  then show "Check v m \<noteq> None" by (simp add: Check_None_iff)
next
  assume a: "distinct (map fst (entries (Meta.Storage m))) \<and>
    (\<forall>(name, store) \<in> set (entries (Meta.Storage m)).
       \<not> (Location store \<noteq> [] \<and> Storage.Type store \<noteq> StorageFilesystem \<or>
          Storage.Filesystem store \<noteq> None \<and> Storage.Type store \<noteq> StorageFilesystem \<or>
          Storage.Type store = [] \<or> CountMin store < 0 \<or>
          CountMax store = 0 \<or> CountMax store < -1))"
  then have "list_all (\<lambda>(name, store). \<not> storage_rejected store) (entries (Meta.Storage m))"
    unfolding storage_rejected_def list_all_iff by blast
  with a have "checkStorage m (entries (Meta.Storage m)) {} = None"
    by (simp add: checkStorage_None_iff)
  then show "Check v m = Check v (m\<lparr>Meta.Storage := None\<rparr>)"
    by (rule Check_without_Storage)
qed

theorem Check_storage_rules_witness:
  "Check (\<lambda>series. True)
     (example_meta False None None None
        (Some [(''data'', example_storage ''data'' StorageBlock ''/srv'' None)])) \<noteq> None \<and>
   Check (\<lambda>series. True)
     (example_meta False None None None
        (Some [(''data'', example_storage ''data'' StorageFilesystem ''/srv'' None)])) = None"
proof -
  let ?b = "example_storage ''data'' StorageBlock ''/srv'' None"
  let ?f = "example_storage ''data'' StorageFilesystem ''/srv'' None"
  let ?mb = "example_meta False None None None (Some [(''data'', ?b)])"
  let ?mf = "example_meta False None None None (Some [(''data'', ?f)])"
  have 1: "Check (\<lambda>series. True) ?mb \<noteq> None"
    using Check_storage_rules [of "''data''" ?b ?mb "\<lambda>series. True"]
    by (simp add: example_defs entries_def)
  have "Check (\<lambda>series. True) ?mf = Check (\<lambda>series. True) (?mf\<lparr>Meta.Storage := None\<rparr>)"
    using Check_storage_rules [of "''data''" ?f ?mf "\<lambda>series. True"]
    by (simp add: example_defs entries_def)
  also have "\<dots> = None" by (simp add: example_defs Check_eval)
  finally show ?thesis using 1 by simp
qed

section \<open>Properties of the decoder and the encoder\<close>

lemma count_bare_integer:
  "0 < m \<Longrightarrow>
   count_ranges (ReadMeta v (example_storage_doc [(''required'', VBool req), (''count'', VInt m)]))
     = Inr [(if req then m else 0, m)]"
  by (simp add: example_doc_defs decode_eval)

lemma count_absent:
  "count_ranges (ReadMeta v (example_storage_doc [(''required'', VBool req)]))
     = Inr [(if req then 1 else 0, 1)]"
  by (simp add: example_doc_defs decode_eval)

lemma count_not_positive:
  "m \<le> 0 \<Longrightarrow>
   ReadMeta v (example_storage_doc [(''required'', VBool req), (''count'', VInt m)])
     = Inl (MetadataError (InvalidCount m))"
  by (simp add: example_doc_defs decode_eval)

text \<open>
  C3: storage count coercion. The string \<open>2-4\<close> yields (min 2, max 4) and \<open>5-\<close> yields
  (min 5, max -1); the bare integer 5 yields (5, 5) when required and (0, 5) when not, and
  so does every positive integer \<open>m\<close>: (m, m) and (0, m); the bare integer 0, and every
  integer \<open>m \<le> 0\<close>, is an error of the schema; the string \<open>abc\<close> is an error of the
  schema; with no count field the range is the one of the bare integer 1: (1, 1) when
  required and (0, 1) when not. The ranges are read off the record that \<open>ReadMeta\<close>
  returns for a document with one storage entry.
\<close>

theorem storage_count_coercion:
  "storageCountC_Coerce (VStr ''2-4'') = Inr (VCount 2 4) \<and>
   count_ranges (ReadMeta v (example_storage_doc [(''count'', VStr ''2-4'')])) = Inr [(2, 4)] \<and>
   storageCountC_Coerce (VStr ''5-'') = Inr (VCount 5 (- 1)) \<and>
   count_ranges (ReadMeta v (example_storage_doc [(''count'', VStr ''5-'')])) = Inr [(5, - 1)] \<and>
   count_ranges (ReadMeta v (example_storage_doc [(''required'', VBool True), (''count'', VInt 5)]))
     = Inr [(5, 5)] \<and>
   count_ranges (ReadMeta v (example_storage_doc [(''required'', VBool False), (''count'', VInt 5)]))
     = Inr [(0, 5)] \<and>
   (0 < m \<longrightarrow>
      storageCountC_Coerce (VInt m) = Inr (VCount (- 1) m) \<and>
      count_ranges
        (ReadMeta v (example_storage_doc [(''required'', VBool req), (''count'', VInt m)]))
        = Inr [(if req then m else 0, m)]) \<and>
   storageCountC_Coerce (VInt 0) = Inl (InvalidCount 0) \<and>
   (m \<le> 0 \<longrightarrow>
      storageCountC_Coerce (VInt m) = Inl (InvalidCount m) \<and>
      ReadMeta v (example_storage_doc [(''required'', VBool req), (''count'', VInt m)])
        = Inl (MetadataError (InvalidCount m))) \<and>
   storageCountC_Coerce (VStr ''abc'') = Inl (CountMismatch ''abc'') \<and>
   ReadMeta v (example_storage_doc [(''count'', VStr ''abc'')])
     = Inl (MetadataError (CountMismatch ''abc'')) \<and>
   count_ranges (ReadMeta v (example_storage_doc [(''required'', VBool True)])) = Inr [(1, 1)] \<and>
   count_ranges (ReadMeta v (example_storage_doc [(''required'', VBool False)])) = Inr [(0, 1)] \<and>
   count_ranges (ReadMeta v (example_storage_doc [])) = Inr [(0, 1)] \<and>
   count_ranges (ReadMeta v (example_storage_doc [(''required'', VBool req)]))
     = count_ranges
         (ReadMeta v (example_storage_doc [(''required'', VBool req), (''count'', VInt 1)]))"
proof -
  have a: "storageCountC_Coerce (VStr ''2-4'') = Inr (VCount 2 4)"
    "storageCountC_Coerce (VStr ''5-'') = Inr (VCount 5 (- 1))"
    "storageCountC_Coerce (VStr ''abc'') = Inl (CountMismatch ''abc'')"
    "storageCountC_Coerce (VInt 0) = Inl (InvalidCount 0)"
    by (simp_all add: checker_defs count_defs)
  have b: "storageCountC_Coerce (VInt m)
      = (if m \<le> 0 then Inl (InvalidCount m) else Inr (VCount (- 1) m))"
    by (simp add: checker_defs count_defs)
  have c: "count_ranges (ReadMeta v (example_storage_doc [(''count'', VStr ''2-4'')])) = Inr [(2, 4)]"
    "count_ranges (ReadMeta v (example_storage_doc [(''count'', VStr ''5-'')])) = Inr [(5, - 1)]"
    "ReadMeta v (example_storage_doc [(''count'', VStr ''abc'')])
       = Inl (MetadataError (CountMismatch ''abc''))"
    "count_ranges (ReadMeta v (example_storage_doc [])) = Inr [(0, 1)]"
    by (simp_all add: example_doc_defs decode_eval)
  have d: "count_ranges
      (ReadMeta v (example_storage_doc [(''required'', VBool r), (''count'', VInt 5)]))
      = Inr [(if r then 5 else 0, 5)]" for r
    using count_bare_integer [of 5 v r] by simp
  have e: "count_ranges
      (ReadMeta v (example_storage_doc [(''required'', VBool r), (''count'', VInt 1)]))
      = Inr [(if r then 1 else 0, 1)]" for r
    using count_bare_integer [of 1 v r] by simp
  show ?thesis
    using a b c d [of True] d [of False] e [of req] count_absent [of v True]
      count_absent [of v False] count_absent [of v req]
      count_bare_integer [of m v req] count_not_positive [of m v req]
    by simp
qed

theorem storage_count_coercion_witness:
  "storageCountC_Coerce (VInt 3) = Inr (VCount (- 1) 3) \<and>
   count_ranges
     (ReadMeta (\<lambda>series. True)
        (example_storage_doc [(''required'', VBool True), (''count'', VInt 3)])) = Inr [(3, 3)] \<and>
   storageCountC_Coerce (VInt (- 2)) = Inl (InvalidCount (- 2))"
  using storage_count_coercion [of "\<lambda>series. True" 3 True]
    storage_count_coercion [of "\<lambda>series. True" "- 2" True]
  by simp

lemma marshaledRelation_GetYAML_string_iff:
  "(\<exists>s. marshaledRelation_GetYAML r = VStr s) \<longleftrightarrow>
     \<not> Optional r \<and> Scope r = ScopeGlobal \<and>
     Limit r = (if Role r = RoleProvider then 0 else 1)"
  by (auto simp: marshaledRelation_GetYAML_def Let_def)

text \<open>
  C7: the bare-string entry \<open>server: mysql\<close> of the provides mapping is expanded to the
  full form and decodes to the relation with interface \<open>mysql\<close>, the limit of the
  Provider role (no limit, stored as 0), optional false and scope global. The encoder
  returns the bare interface string for a relation exactly when optional is false, the
  scope is global and the limit is the default of the role (0, unbounded, for Provider;
  1 for Requirer and Peer); so it returns \<open>mysql\<close> for the decoded relation, and the
  encoding of the decoded record is the original document.
\<close>

theorem relation_shorthand:
  "ifaceExpC_Coerce VNil (VStr ''mysql'')
     = Inr (VMap [(''interface'', VStr ''mysql''), (''limit'', VNil),
                  (''optional'', VBool False), (''scope'', VStr ScopeGlobal)]) \<and>
   map_sum id Provides
     (ReadMeta v (example_doc [(''provides'', VMap [(''server'', VStr ''mysql'')])]))
     = Inr (Some [(''server'',
          \<lparr>Relation.Name = ''server'', Role = RoleProvider, Interface = ''mysql'',
           Optional = False, Limit = 0, Scope = ScopeGlobal\<rparr>)]) \<and>
   ((\<exists>s. marshaledRelation_GetYAML r = VStr s) \<longleftrightarrow>
      \<not> Optional r \<and> Scope r = ScopeGlobal \<and>
      Limit r = (if Role r = RoleProvider then 0 else 1)) \<and>
   (\<not> Optional r \<and> Scope r = ScopeGlobal \<and> Limit r = (if Role r = RoleProvider then 0 else 1)
      \<longrightarrow> marshaledRelation_GetYAML r = VStr (Interface r)) \<and>
   marshaledRelation_GetYAML
     \<lparr>Relation.Name = ''server'', Role = RoleProvider, Interface = ''mysql'',
      Optional = False, Limit = 0, Scope = ScopeGlobal\<rparr> = VStr ''mysql'' \<and>
   map_sum id Meta_GetYAML
     (ReadMeta v (example_doc [(''provides'', VMap [(''server'', VStr ''mysql'')])]))
     = Inr (example_doc [(''provides'', VMap [(''server'', VStr ''mysql'')])])"
proof -
  have 1: "ifaceExpC_Coerce VNil (VStr ''mysql'')
     = Inr (VMap [(''interface'', VStr ''mysql''), (''limit'', VNil),
                  (''optional'', VBool False), (''scope'', VStr ScopeGlobal)])"
    by (simp add: ifaceExpC_Coerce_def stringC_def String_checker_def)
  have 2: "ReadMeta v (example_doc [(''provides'', VMap [(''server'', VStr ''mysql'')])])
     = Inr \<lparr>Meta.Name = ''wordpress'', Summary = ''Blog engine'',
            Description = ''A pretty popular blog engine'', Subordinate = False,
            Provides = Some [(''server'',
              \<lparr>Relation.Name = ''server'', Role = RoleProvider, Interface = ''mysql'',
               Optional = False, Limit = 0, Scope = ScopeGlobal\<rparr>)],
            Requires = None, Peers = None, Format = 1, OldRevision = 0, Categories = None,
            Tags = None, Series = [], Storage = None\<rparr>"
    by (simp add: example_doc_defs decode_eval)
  have 3: "\<not> Optional r \<and> Scope r = ScopeGlobal \<and> Limit r = (if Role r = RoleProvider then 0 else 1)
      \<longrightarrow> marshaledRelation_GetYAML r = VStr (Interface r)"
    by (simp add: marshaledRelation_GetYAML_def Let_def)
  have 4: "marshaledRelation_GetYAML
     \<lparr>Relation.Name = ''server'', Role = RoleProvider, Interface = ''mysql'',
      Optional = False, Limit = 0, Scope = ScopeGlobal\<rparr> = VStr ''mysql''"
    by (simp add: marshaledRelation_GetYAML_def)
  have 5: "map_sum id Meta_GetYAML
     (ReadMeta v (example_doc [(''provides'', VMap [(''server'', VStr ''mysql'')])]))
     = Inr (example_doc [(''provides'', VMap [(''server'', VStr ''mysql'')])])"
    unfolding 2 by (simp add: encode_defs entries_def example_doc_def)
  have 6: "map_sum id Provides
     (ReadMeta v (example_doc [(''provides'', VMap [(''server'', VStr ''mysql'')])]))
     = Inr (Some [(''server'',
          \<lparr>Relation.Name = ''server'', Role = RoleProvider, Interface = ''mysql'',
           Optional = False, Limit = 0, Scope = ScopeGlobal\<rparr>)])"
    unfolding 2 by simp
  from 1 6 marshaledRelation_GetYAML_string_iff [of r] 3 4 5 show ?thesis by blast
qed

theorem relation_shorthand_witness:
  "marshaledRelation_GetYAML
     \<lparr>Relation.Name = ''db'', Role = RoleRequirer, Interface = ''pgsql'',
      Optional = False, Limit = 1, Scope = ScopeGlobal\<rparr> = VStr ''pgsql'' \<and>
   marshaledRelation_GetYAML
     \<lparr>Relation.Name = ''db'', Role = RoleRequirer, Interface = ''pgsql'',
      Optional = False, Limit = 0, Scope = ScopeGlobal\<rparr>
     = VMap [(''interface'', VStr ''pgsql''), (''limit'', VInt 0)]"
proof -
  have "marshaledRelation_GetYAML
     \<lparr>Relation.Name = ''db'', Role = RoleRequirer, Interface = ''pgsql'',
      Optional = False, Limit = 1, Scope = ScopeGlobal\<rparr> = VStr ''pgsql''"
    using relation_shorthand [of "\<lambda>series. True"
        "\<lparr>Relation.Name = ''db'', Role = RoleRequirer, Interface = ''pgsql'',
          Optional = False, Limit = 1, Scope = ScopeGlobal\<rparr>"]
    by simp
  then show ?thesis by (simp add: encode_defs)
qed

section \<open>Decoding the encoder's output\<close>

lemma FieldMap_fields_Cons:
  "FieldMap_fields ((k, c) # fs) ds m =
     (case resolve ds m k of
        None \<Rightarrow> FieldMap_fields fs ds m
      | Some x \<Rightarrow>
          (case c x of
             Inl e \<Rightarrow> Inl e
           | Inr y \<Rightarrow>
               (case FieldMap_fields fs ds m of
                  Inl e \<Rightarrow> Inl e
                | Inr out \<Rightarrow> Inr ((k, y) # out))))"
  by (simp add: resolve_def)

lemma FieldMap_fields_keys:
  "FieldMap_fields fs ds m = Inr out \<Longrightarrow> set (map fst out) \<subseteq> set (map fst fs)"
proof (induction fs arbitrary: out)
  case Nil
  then show ?case by simp
next
  case (Cons p fs)
  obtain k c where p: "p = (k, c)" by (cases p)
  show ?case
  proof (cases "FieldMap_fields fs ds m")
    case (Inl e)
    with Cons.prems show ?thesis
      unfolding p FieldMap_fields_Cons by (simp split: option.splits sum.splits)
  next
    case (Inr o')
    then have sub: "set (map fst o') \<subseteq> set (map fst fs)" by (rule Cons.IH)
    have "out = o' \<or> (\<exists>y. out = (k, y) # o')"
      using Cons.prems unfolding p FieldMap_fields_Cons Inr
      by (auto split: option.splits sum.splits)
    then show ?thesis
    proof
      assume "out = o'"
      with sub show ?thesis by auto
    next
      assume "\<exists>y. out = (k, y) # o'"
      then obtain y where "out = (k, y) # o'" ..
      with sub show ?thesis unfolding p by auto
    qed
  qed
qed

lemma FieldMap_fields_absent:
  assumes "FieldMap_fields fs ds m = Inr out" "k \<notin> set (map fst fs)"
  shows "map_of out k = None"
proof -
  from FieldMap_fields_keys [OF assms(1)] assms(2) have "k \<notin> set (map fst out)" by blast
  then show ?thesis by (simp add: map_of_eq_None_iff)
qed

lemma FieldMap_fields_lookup:
  assumes "FieldMap_fields fs ds m = Inr out" "distinct (map fst fs)" "(k, c) \<in> set fs"
  shows "map_of out k =
           (case resolve ds m k of
              None \<Rightarrow> None
            | Some x \<Rightarrow> (case c x of Inl e \<Rightarrow> None | Inr y \<Rightarrow> Some y))"
  using assms
proof (induction fs arbitrary: out)
  case Nil
  then show ?case by simp
next
  case (Cons p fs)
  obtain k' c' where p: "p = (k', c')" by (cases p)
  from Cons.prems(1) obtain o' where o': "FieldMap_fields fs ds m = Inr o'"
    unfolding p FieldMap_fields_Cons by (cases "FieldMap_fields fs ds m")
      (auto split: option.splits sum.splits)
  show ?case
  proof (cases "k' = k")
    case True
    have notin: "k \<notin> set (map fst fs)" using Cons.prems(2) p True by simp
    then have c: "c' = c" using Cons.prems(3) p True by force
    have none: "map_of o' k = None" using o' notin by (rule FieldMap_fields_absent)
    show ?thesis
    proof (cases "resolve ds m k")
      case None
      with Cons.prems(1) none o' show ?thesis
        unfolding p FieldMap_fields_Cons True by simp
    next
      case (Some x)
      with Cons.prems(1) none o' show ?thesis
        unfolding p FieldMap_fields_Cons True c by (cases "c x") auto
    qed
  next
    case False
    then have "(k, c) \<in> set fs" using Cons.prems(3) p by simp
    moreover have "distinct (map fst fs)" using Cons.prems(2) by simp
    ultimately have ih: "map_of o' k = (case resolve ds m k of None \<Rightarrow> None
            | Some x \<Rightarrow> (case c x of Inl e \<Rightarrow> None | Inr y \<Rightarrow> Some y))"
      using Cons.IH [OF o'] by blast
    have "out = o' \<or> (\<exists>y. out = (k', y) # o')"
      using Cons.prems(1) unfolding p FieldMap_fields_Cons o'
      by (auto split: option.splits sum.splits)
    with False have "map_of out k = map_of o' k" by auto
    with ih show ?thesis by simp
  qed
qed

lemma FieldMap_fields_succeeds:
  assumes "\<forall>(k, c) \<in> set fs. \<forall>x. resolve ds m k = Some x \<longrightarrow> (\<exists>y. c x = Inr y)"
  shows "\<exists>out. FieldMap_fields fs ds m = Inr out"
  using assms
proof (induction fs)
  case Nil
  then show ?case by simp
next
  case (Cons p fs)
  obtain k c where p: "p = (k, c)" by (cases p)
  from Cons.prems have "\<forall>(k, c) \<in> set fs. \<forall>x. resolve ds m k = Some x \<longrightarrow> (\<exists>y. c x = Inr y)"
    by simp
  from Cons.IH [OF this] obtain out where out: "FieldMap_fields fs ds m = Inr out" by blast
  from Cons.prems have "\<forall>x. resolve ds m k = Some x \<longrightarrow> (\<exists>y. c x = Inr y)"
    by (simp add: p)
  then show ?case
    unfolding p FieldMap_fields_Cons out
    by (auto split: option.splits)
qed

lemma bindE_Inr_iff: "bindE x f = Inr y \<longleftrightarrow> (\<exists>a. x = Inr a \<and> f a = Inr y)"
  by (cases x) (simp_all add: bindE_def)

lemma mapE_Inr_iff:
  "mapE f xs = Inr ys \<longleftrightarrow> list_all2 (\<lambda>x y. f x = Inr y) xs ys"
proof (induction xs arbitrary: ys)
  case Nil
  then show ?case by auto
next
  case (Cons x xs)
  show ?case
  proof (cases "f x")
    case (Inl e)
    then show ?thesis by (auto simp: list_all2_Cons1)
  next
    case fx: (Inr y)
    show ?thesis
    proof (cases "mapE f xs")
      case (Inl e)
      then have "\<And>zs. \<not> list_all2 (\<lambda>x y. f x = Inr y) xs zs"
        using Cons.IH by simp
      with Inl fx show ?thesis by (auto simp: list_all2_Cons1)
    next
      case (Inr zs)
      then have "\<And>zs'. list_all2 (\<lambda>x y. f x = Inr y) xs zs' \<longleftrightarrow> zs' = zs"
        unfolding Cons.IH [symmetric] by auto
      with Inr fx show ?thesis by (auto simp: list_all2_Cons1)
    qed
  qed
qed

lemma ifaceSchema_result:
  assumes "ifaceSchema x = Inr w"
  shows "\<exists>i l s o'. w = VMap [(''interface'', VStr i), (''limit'', l), (''scope'', VStr s),
             (''optional'', VBool o')] \<and>
           (l = VNil \<or> (\<exists>n. l = VInt n)) \<and> (s = ScopeGlobal \<or> s = ScopeContainer)"
  using assms
  unfolding ifaceSchema_def FieldMap_def
  by (auto simp: String_checker_def Bool_checker_def Int_checker_def Const_checker_def
      split: val.splits if_splits option.splits sum.splits)

lemma parseRelations_entry_expanded:
  assumes "ifaceExpC_Coerce lim x = Inr w" "lim = VNil \<or> lim = VInt 1"
    and "parseRelations_entry n role w = Inr r"
  shows "scope_known (n, r)"
proof (cases "stringC x")
  case (Inr s)
  with assms(1) have "w = VMap [(''interface'', s), (''limit'', lim), (''optional'', VBool False),
      (''scope'', VStr ScopeGlobal)]"
    by (simp add: ifaceExpC_Coerce_def)
  with assms(3) show ?thesis
    by (auto simp: parseRelations_entry_def bindE_Inr_iff assertMap_def index_def
        assertString_def scope_known_def)
next
  case (Inl e)
  with assms(1) obtain y where "ifaceSchema y = Inr w"
    by (auto simp: ifaceExpC_Coerce_def split: sum.splits val.splits)
  from ifaceSchema_result [OF this] obtain i l s o' where
    w: "w = VMap [(''interface'', VStr i), (''limit'', l), (''scope'', VStr s),
             (''optional'', VBool o')]" and s: "s = ScopeGlobal \<or> s = ScopeContainer"
    by blast
  from assms(3) s show ?thesis
    unfolding w
    by (auto simp: parseRelations_entry_def bindE_Inr_iff assertMap_def index_def
        assertString_def scope_known_def split: if_splits)
qed

lemma list_all_update:
  "P (k, v) \<Longrightarrow> list_all P al \<Longrightarrow> list_all P (AList.update k v al)"
  by (induction al) auto

lemma parseRelations_loop_scope_known:
  assumes "list_all (\<lambda>(n, w). \<exists>x. ifaceExpC_Coerce lim x = Inr w) ys"
    and "lim = VNil \<or> lim = VInt 1"
    and "list_all scope_known acc"
    and "parseRelations_loop ys role acc = Inr res"
  shows "list_all scope_known res"
  using assms
proof (induction ys arbitrary: acc)
  case Nil
  then show ?case by simp
next
  case (Cons p ys)
  obtain n w where p: "p = (n, w)" by (cases p)
  from Cons.prems(4) obtain r where r: "parseRelations_entry n role w = Inr r"
    and rest: "parseRelations_loop ys role (AList.update n r acc) = Inr res"
    unfolding p by (auto split: sum.splits)
  from Cons.prems(1) obtain x where "ifaceExpC_Coerce lim x = Inr w" unfolding p by auto
  from parseRelations_entry_expanded [OF this Cons.prems(2) r]
  have "list_all scope_known (AList.update n r acc)"
    using Cons.prems(3) by (intro list_all_update)
  moreover from Cons.prems(1) have "list_all (\<lambda>(n, w). \<exists>x. ifaceExpC_Coerce lim x = Inr w) ys"
    by simp
  ultimately show ?case using Cons.IH Cons.prems(2) rest by blast
qed

lemma StringMap_result:
  assumes "StringMap c x = Inr y"
  shows "\<exists>out. y = VMap out \<and> list_all (\<lambda>(k, w). \<exists>x'. c x' = Inr w) out"
proof -
  from assms obtain m out where y: "y = VMap out"
    and m: "mapE (\<lambda>(k, x). case c x of Inl e \<Rightarrow> Inl e | Inr y \<Rightarrow> Inr (k, y)) m = Inr out"
    by (auto simp: StringMap_def split: val.splits sum.splits)
  from m have "list_all2 (\<lambda>kx ky. (case kx of (k, x) \<Rightarrow> case c x of Inl e \<Rightarrow> Inl e | Inr y \<Rightarrow> Inr (k, y)) = Inr ky) m out"
    by (simp add: mapE_Inr_iff)
  then have "list_all (\<lambda>(k, w). \<exists>x'. c x' = Inr w) out"
  proof (induction rule: list_all2_induct)
    case Nil
    then show ?case by simp
  next
    case (Cons kx xs ky ys)
    then show ?case by (auto split: prod.splits sum.splits)
  qed
  with y show ?thesis by blast
qed

lemma parseRelations_scope_known:
  assumes "StringMap (ifaceExpander lim) x = Inr y" "lim = VNil \<or> lim = VInt 1"
    and "parseRelations y role = Inr res"
  shows "list_all scope_known (entries res)"
proof -
  from StringMap_result [OF assms(1)] obtain out where y: "y = VMap out"
    and out: "list_all (\<lambda>(k, w). \<exists>x'. ifaceExpC_Coerce lim x' = Inr w) out"
    by (auto simp: ifaceExpander_def)
  from assms(3) obtain xs where res: "res = Some xs" and "parseRelations_loop out role [] = Inr xs"
    unfolding y by (auto simp: parseRelations_def bindE_Inr_iff assertMap_def)
  from parseRelations_loop_scope_known [OF out assms(2) _ this(2)]
  show ?thesis by (simp add: res entries_def)
qed

lemma parseRelations_VNil: "parseRelations VNil role = Inr None"
  by (simp add: parseRelations_def)

lemma FieldMap_lookup:
  assumes "FieldMap fs ds raw = Inr (VMap out)" "distinct (map fst fs)" "(k, c) \<in> set fs"
  shows "index out k = VNil \<or> (\<exists>x. c x = Inr (index out k))"
proof -
  from assms(1) obtain m0 where "FieldMap_fields fs ds m0 = Inr out"
    by (auto simp: FieldMap_def split: val.splits if_splits sum.splits)
  from FieldMap_fields_lookup [OF this assms(2,3)]
  show ?thesis
    by (auto simp: index_def split: option.splits sum.splits)
qed

lemma charmSchema_relations:
  assumes "charmSchema raw = Inr (VMap m)"
  shows "index m ''provides'' = VNil \<or>
           (\<exists>x. StringMap (ifaceExpander VNil) x = Inr (index m ''provides''))"
    and "index m ''requires'' = VNil \<or>
           (\<exists>x. StringMap (ifaceExpander (VInt 1)) x = Inr (index m ''requires''))"
    and "index m ''peers'' = VNil \<or>
           (\<exists>x. StringMap (ifaceExpander (VInt 1)) x = Inr (index m ''peers''))"
  using assms unfolding charmSchema_def
  by (rule FieldMap_lookup; simp add: charmSchema_Fields_def)+

lemma parseRelations_decoded:
  assumes "y = VNil \<or> (\<exists>x. StringMap (ifaceExpander lim) x = Inr y)" "lim = VNil \<or> lim = VInt 1"
    and "parseRelations y role = Inr res"
  shows "list_all scope_known (entries res)"
  using assms(1)
proof
  assume "y = VNil"
  with assms(3) show ?thesis by (simp add: parseRelations_def entries_def)
next
  assume "\<exists>x. StringMap (ifaceExpander lim) x = Inr y"
  then obtain x where "StringMap (ifaceExpander lim) x = Inr y" ..
  from parseRelations_scope_known [OF this assms(2,3)] show ?thesis .
qed

lemma ReadMeta_Inr:
  assumes "ReadMeta v raw = Inr R"
  shows "Check v R = None" and "list_all scope_known (entries (Provides R))"
    and "list_all scope_known (entries (Requires R))"
    and "list_all scope_known (entries (Peers R))"
proof -
  from assms obtain y where y: "charmSchema raw = Inr y"
    by (cases "charmSchema raw") (auto simp: ReadMeta_def)
  from assms obtain m provides requires peers where m: "y = VMap m"
    and p: "parseRelations (index m ''provides'') RoleProvider = Inr provides"
      "parseRelations (index m ''requires'') RoleRequirer = Inr requires"
      "parseRelations (index m ''peers'') RolePeer = Inr peers"
    and R: "Provides R = provides" "Requires R = requires" "Peers R = peers"
      "Check v R = None"
    unfolding ReadMeta_def y
    by (auto simp: bindE_Inr_iff assertMap_def Let_def split: val.splits option.splits)
  note c = charmSchema_relations [OF y [unfolded m]]
  show "Check v R = None" by (rule R(4))
  show "list_all scope_known (entries (Provides R))"
    unfolding R(1) by (rule parseRelations_decoded [OF c(1) _ p(1)]) simp
  show "list_all scope_known (entries (Requires R))"
    unfolding R(2) by (rule parseRelations_decoded [OF c(2) _ p(2)]) simp
  show "list_all scope_known (entries (Peers R))"
    unfolding R(3) by (rule parseRelations_decoded [OF c(3) _ p(3)]) simp
qed

lemma relation_roundtrip:
  assumes "scope_known (n, r)" "Relation.Name r = n" "Role r = role"
  shows "\<exists>w. ifaceExpC_Coerce (role_limit role) (marshaledRelation_GetYAML r) = Inr w \<and>
             parseRelations_entry n role w = Inr r"
proof (cases "\<not> Optional r \<and> Limit r = (if Role r = RoleProvider then 0 else 1) \<and> Scope r = ScopeGlobal")
  case True
  then have e: "marshaledRelation_GetYAML r = VStr (Interface r)"
    by (simp add: marshaledRelation_GetYAML_def Let_def)
  have "ifaceExpC_Coerce (role_limit role) (VStr (Interface r))
      = Inr (VMap [(''interface'', VStr (Interface r)), (''limit'', role_limit role),
                   (''optional'', VBool False), (''scope'', VStr ScopeGlobal)])"
    by (simp add: ifaceExpC_Coerce_def stringC_def String_checker_def)
  moreover have "parseRelations_entry n role
      (VMap [(''interface'', VStr (Interface r)), (''limit'', role_limit role),
                   (''optional'', VBool False), (''scope'', VStr ScopeGlobal)]) = Inr r"
    using True assms(2,3)
    by (cases r) (auto simp: parseRelations_entry_def bindE_def assertMap_def index_def
        assertString_def assertBool_def assertInt64_def role_limit_def)
  ultimately show ?thesis unfolding e by blast
next
  case False
  let ?noLimit = "if Role r = RoleProvider then 0 else 1 :: int"
  let ?m = "[(''interface'', VStr (Interface r))]
              @ omitempty ''limit'' (VInt (Limit r)) (Limit r = ?noLimit)
              @ omitempty ''optional'' (VBool (Optional r)) (\<not> Optional r)
              @ omitempty ''scope'' (VStr (if Scope r \<noteq> ScopeGlobal then Scope r else []))
                  ((if Scope r \<noteq> ScopeGlobal then Scope r else []) = [])"
  let ?l = "if Limit r = ?noLimit then role_limit role else VInt (Limit r)"
  from False have e: "marshaledRelation_GetYAML r = VMap ?m"
    by (simp add: marshaledRelation_GetYAML_def Let_def)
  from assms(1) have sc: "Scope r = ScopeGlobal \<or> Scope r = ScopeContainer"
    by (simp add: scope_known_def)
  have "ifaceExpC_Coerce (role_limit role) (VMap ?m)
      = Inr (VMap [(''interface'', VStr (Interface r)), (''limit'', ?l),
           (''scope'', VStr (Scope r)), (''optional'', VBool (Optional r))])"
    using sc
    by (auto simp: ifaceExpC_Coerce_def stringC_def String_checker_def mapC_def StringMap_def
        Any_checker_def omitempty_def ifaceSchema_def FieldMap_def Bool_checker_def
        Int_checker_def Const_checker_def role_limit_def)
  moreover have "parseRelations_entry n role
      (VMap [(''interface'', VStr (Interface r)), (''limit'', ?l),
           (''scope'', VStr (Scope r)), (''optional'', VBool (Optional r))]) = Inr r"
    using assms(2,3) sc
    by (cases r) (auto simp: parseRelations_entry_def bindE_def assertMap_def index_def
        assertString_def assertBool_def assertInt64_def role_limit_def)
  ultimately show ?thesis unfolding e by blast
qed

lemma update_fresh:
  "k \<notin> set (map fst al) \<Longrightarrow> AList.update k v al = al @ [(k, v)]"
  by (induction al) auto

lemma fold_update_distinct:
  assumes "distinct (map fst xs)" "set (map fst xs) \<inter> set (map fst acc) = {}"
  shows "fold (\<lambda>(n, r) mrs. AList.update n (f r) mrs) xs acc
           = acc @ map (\<lambda>(n, r). (n, f r)) xs"
  using assms
proof (induction xs arbitrary: acc)
  case Nil
  then show ?case by simp
next
  case (Cons p xs)
  obtain n r where p: "p = (n, r)" by (cases p)
  from Cons.prems have fresh: "n \<notin> set (map fst acc)" and d: "distinct (map fst xs)"
    and nx: "n \<notin> set (map fst xs)"
    and i: "set (map fst xs) \<inter> set (map fst acc) = {}"
    by (auto simp: p)
  have "set (map fst xs) \<inter> set (map fst (acc @ [(n, f r)])) = {}"
    using i nx by auto
  from Cons.IH [OF d this] show ?case
    by (simp add: p update_fresh [OF fresh])
qed

lemma marshaledRelations_distinct:
  "distinct (map fst (entries X)) \<Longrightarrow>
   marshaledRelations X = map (\<lambda>(n, r). (n, marshaledRelation_GetYAML r)) (entries X)"
  unfolding marshaledRelations_def
  by (subst fold_update_distinct) simp_all

lemma relations_roundtrip_loop:
  assumes "list_all (relation_decodable role) xs" "distinct (map fst xs)"
    and "set (map fst xs) \<inter> set (map fst acc) = {}"
  shows "\<exists>out. mapE (\<lambda>(k, x). case ifaceExpander (role_limit role) x of
                        Inl e \<Rightarrow> Inl e | Inr y \<Rightarrow> Inr (k, y))
                  (map (\<lambda>(n, r). (n, marshaledRelation_GetYAML r)) xs) = Inr out \<and>
               parseRelations_loop out role acc = Inr (acc @ xs)"
  using assms
proof (induction xs arbitrary: acc)
  case Nil
  then show ?case by simp
next
  case (Cons p xs)
  obtain n r where p: "p = (n, r)" by (cases p)
  from Cons.prems have fresh: "n \<notin> set (map fst acc)" and d: "distinct (map fst xs)"
    and nx: "n \<notin> set (map fst xs)"
    and i: "set (map fst xs) \<inter> set (map fst acc) = {}"
    and ok: "relation_decodable role (n, r)" and oks: "list_all (relation_decodable role) xs"
    by (auto simp: p)
  from ok obtain w where w: "ifaceExpC_Coerce (role_limit role) (marshaledRelation_GetYAML r) = Inr w"
    "parseRelations_entry n role w = Inr r"
    using relation_roundtrip [of n r role] by (auto simp: relation_decodable_def)
  have "set (map fst xs) \<inter> set (map fst (acc @ [(n, r)])) = {}"
    using i nx by auto
  from Cons.IH [OF oks d this] obtain out where
    out: "mapE (\<lambda>(k, x). case ifaceExpander (role_limit role) x of
                        Inl e \<Rightarrow> Inl e | Inr y \<Rightarrow> Inr (k, y))
                  (map (\<lambda>(n, r). (n, marshaledRelation_GetYAML r)) xs) = Inr out"
    "parseRelations_loop out role (acc @ [(n, r)]) = Inr ((acc @ [(n, r)]) @ xs)"
    by blast
  have "mapE (\<lambda>(k, x). case ifaceExpander (role_limit role) x of
                        Inl e \<Rightarrow> Inl e | Inr y \<Rightarrow> Inr (k, y))
                  (map (\<lambda>(n, r). (n, marshaledRelation_GetYAML r)) (p # xs)) = Inr ((n, w) # out)"
    using out(1) by (simp add: p ifaceExpander_def w(1))
  moreover have "parseRelations_loop ((n, w) # out) role acc = Inr (acc @ p # xs)"
    using out(2) by (simp add: w(2) update_fresh [OF fresh] p)
  ultimately show ?case by blast
qed

lemma relations_roundtrip:
  assumes "list_all (relation_decodable role) (entries X)" "distinct (map fst (entries X))"
    and "entries X \<noteq> []"
  shows "\<exists>out. StringMap (ifaceExpander (role_limit role)) (VMap (marshaledRelations X))
                  = Inr (VMap out) \<and>
               parseRelations (VMap out) role = Inr X"
proof -
  from relations_roundtrip_loop [OF assms(1,2), of "[]"] obtain out where
    out: "mapE (\<lambda>(k, x). case ifaceExpander (role_limit role) x of
                        Inl e \<Rightarrow> Inl e | Inr y \<Rightarrow> Inr (k, y))
                  (map (\<lambda>(n, r). (n, marshaledRelation_GetYAML r)) (entries X)) = Inr out"
    "parseRelations_loop out role [] = Inr (entries X)"
    by auto
  from assms(3) have X: "X = Some (entries X)" by (cases X) (simp_all add: entries_def)
  have "StringMap (ifaceExpander (role_limit role)) (VMap (marshaledRelations X)) = Inr (VMap out)"
    by (simp add: StringMap_def marshaledRelations_distinct [OF assms(2)] out(1))
  moreover have "parseRelations (VMap out) role = Inr X"
    using X by (simp add: parseRelations_def bindE_def assertMap_def out(2))
  ultimately show ?thesis by blast
qed

lemma mapE_String_checker:
  "mapE String_checker (map VStr xs) = Inr (map VStr xs)"
  by (induction xs) (simp_all add: String_checker_def)

lemma mapE_assertString:
  "mapE assertString (map VStr xs) = Inr xs"
  by (induction xs) (simp_all add: assertString_def)

lemma List_checker_strings:
  "List_checker String_checker (VList (map VStr xs)) = Inr (VList (map VStr xs))"
  by (simp add: List_checker_def mapE_String_checker)

lemma parseStringList_strings:
  "parseStringList (VList (map VStr xs)) = Inr (Some xs)"
  by (simp add: parseStringList_def bindE_def assertList_def mapE_assertString)

lemma FieldMap_apply:
  assumes "distinct (map fst fs)"
    and "list_all (\<lambda>k. k \<in> set (map fst fs)) (map fst m)"
    and "\<forall>(k, c) \<in> set fs. \<forall>x. resolve ds m k = Some x \<longrightarrow> (\<exists>y. c x = Inr y)"
  shows "\<exists>out. FieldMap fs ds (VMap m) = Inr (VMap out) \<and>
           (\<forall>(k, c) \<in> set fs. map_of out k =
              (case resolve ds m k of
                 None \<Rightarrow> None
               | Some x \<Rightarrow> (case c x of Inl e \<Rightarrow> None | Inr y \<Rightarrow> Some y)))"
proof -
  from FieldMap_fields_succeeds [OF assms(3)] obtain out where
    out: "FieldMap_fields fs ds m = Inr out" ..
  have "FieldMap fs ds (VMap m) = Inr (VMap out)"
    using assms(2) by (simp add: FieldMap_def out)
  moreover have "\<forall>(k, c) \<in> set fs. map_of out k =
              (case resolve ds m k of
                 None \<Rightarrow> None
               | Some x \<Rightarrow> (case c x of Inl e \<Rightarrow> None | Inr y \<Rightarrow> Some y))"
    using FieldMap_fields_lookup [OF out assms(1)] by blast
  ultimately show ?thesis by blast
qed

lemma map_of_omitempty_append:
  "map_of (omitempty k' v z @ rest) k = (if k = k' \<and> \<not> z then Some v else map_of rest k)"
  by (simp add: omitempty_def)

lemma map_of_omitempty:
  "map_of (omitempty k' v z) k = (if k = k' \<and> \<not> z then Some v else None)"
  by (simp add: omitempty_def)

lemma keys_omitempty_append:
  "list_all P (map fst (omitempty k v z @ rest)) \<longleftrightarrow> (z \<or> P k) \<and> list_all P (map fst rest)"
  by (simp add: omitempty_def)

lemma keys_omitempty:
  "list_all P (map fst (omitempty k v z)) \<longleftrightarrow> (z \<or> P k)"
  by (simp add: omitempty_def)

lemma Meta_GetYAML_fields: "Meta_GetYAML m = VMap (GetYAML_fields m)"
  by (simp add: Meta_GetYAML_def GetYAML_fields_def)

lemma GetYAML_keys_known:
  "list_all (\<lambda>k. k \<in> set (map fst charmSchema_Fields)) (map fst (GetYAML_fields m))"
  unfolding GetYAML_fields_def
  by (simp add: keys_omitempty_append keys_omitempty charmSchema_Fields_def)

lemma GetYAML_resolve:
  "resolve charmSchema_Defaults (GetYAML_fields m) ''name'' = Some (VStr (Meta.Name m))"
  "resolve charmSchema_Defaults (GetYAML_fields m) ''summary'' = Some (VStr (Summary m))"
  "resolve charmSchema_Defaults (GetYAML_fields m) ''description'' = Some (VStr (Description m))"
  "resolve charmSchema_Defaults (GetYAML_fields m) ''provides'' =
     (if marshaledRelations (Provides m) = [] then None
      else Some (VMap (marshaledRelations (Provides m))))"
  "resolve charmSchema_Defaults (GetYAML_fields m) ''requires'' =
     (if marshaledRelations (Requires m) = [] then None
      else Some (VMap (marshaledRelations (Requires m))))"
  "resolve charmSchema_Defaults (GetYAML_fields m) ''peers'' =
     (if marshaledRelations (Peers m) = [] then None
      else Some (VMap (marshaledRelations (Peers m))))"
  "resolve charmSchema_Defaults (GetYAML_fields m) ''revision'' = None"
  "resolve charmSchema_Defaults (GetYAML_fields m) ''format'' = Some (VInt 1)"
  "resolve charmSchema_Defaults (GetYAML_fields m) ''subordinate'' =
     (if Subordinate m then Some (VBool True) else None)"
  "resolve charmSchema_Defaults (GetYAML_fields m) ''categories'' =
     (if entries (Categories m) = [] then None
      else Some (VList (map VStr (entries (Categories m)))))"
  "resolve charmSchema_Defaults (GetYAML_fields m) ''tags'' =
     (if entries (Tags m) = [] then None
      else Some (VList (map VStr (entries (Tags m)))))"
  "resolve charmSchema_Defaults (GetYAML_fields m) ''series'' =
     (if Series m = [] then None else Some (VStr (Series m)))"
  "resolve charmSchema_Defaults (GetYAML_fields m) ''storage'' = None"
  unfolding GetYAML_fields_def resolve_def charmSchema_Defaults_def
  by (simp_all add: map_of_omitempty_append map_of_omitempty del: map_of_append)

lemma marshaledRelations_empty_iff:
  assumes "distinct (map fst (entries X))"
  shows "marshaledRelations X = [] \<longleftrightarrow> entries X = []"
  by (simp add: marshaledRelations_distinct [OF assms])

lemma Check_relations_decodable:
  assumes "Check v R = None"
  shows "list_all scope_known (entries (Provides R)) \<Longrightarrow>
           list_all (relation_decodable RoleProvider) (entries (Provides R))"
    and "list_all scope_known (entries (Requires R)) \<Longrightarrow>
           list_all (relation_decodable RoleRequirer) (entries (Requires R))"
    and "list_all scope_known (entries (Peers R)) \<Longrightarrow>
           list_all (relation_decodable RolePeer) (entries (Peers R))"
    and "distinct (map fst (entries (Provides R)))"
    and "distinct (map fst (entries (Requires R)))"
    and "distinct (map fst (entries (Peers R)))"
proof -
  from assms have p: "relations_pass R" by (simp add: Check_None_iff)
  then show "distinct (map fst (entries (Provides R)))"
    "distinct (map fst (entries (Requires R)))" "distinct (map fst (entries (Peers R)))"
    by (simp_all add: relations_pass_def)
  have *: "list_all (relation_accepted R role) xs \<Longrightarrow> list_all scope_known xs \<Longrightarrow>
      list_all (relation_decodable role) xs" for role xs
    by (auto simp: list_all_iff relation_accepted_def relation_decodable_def)
  from p show "list_all scope_known (entries (Provides R)) \<Longrightarrow>
           list_all (relation_decodable RoleProvider) (entries (Provides R))"
    by (intro *) (simp_all add: relations_pass_def)
  from p show "list_all scope_known (entries (Requires R)) \<Longrightarrow>
           list_all (relation_decodable RoleRequirer) (entries (Requires R))"
    by (intro *) (simp_all add: relations_pass_def)
  from p show "list_all scope_known (entries (Peers R)) \<Longrightarrow>
           list_all (relation_decodable RolePeer) (entries (Peers R))"
    by (intro *) (simp_all add: relations_pass_def)
qed

lemma parseRelations_back:
  assumes "list_all (relation_decodable role) (entries X)" "distinct (map fst (entries X))"
    and "map_of out k =
           (case (if marshaledRelations X = [] then None
                  else Some (VMap (marshaledRelations X))) of
              None \<Rightarrow> None
            | Some x \<Rightarrow> (case StringMap (ifaceExpander (role_limit role)) x of
                          Inl e \<Rightarrow> None | Inr y \<Rightarrow> Some y))"
  shows "parseRelations (index out k) role = Inr (dropEmpty X)"
proof (cases "entries X = []")
  case True
  then have "marshaledRelations X = []"
    by (simp add: marshaledRelations_empty_iff [OF assms(2)])
  with assms(3) True show ?thesis
    by (simp add: index_def parseRelations_def dropEmpty_def)
next
  case False
  then have ne: "marshaledRelations X \<noteq> []"
    by (simp add: marshaledRelations_empty_iff [OF assms(2)])
  from relations_roundtrip [OF assms(1,2) False] obtain o' where
    o': "StringMap (ifaceExpander (role_limit role)) (VMap (marshaledRelations X)) = Inr (VMap o')"
    "parseRelations (VMap o') role = Inr X"
    by blast
  from assms(3) have "index out k = VMap o'"
    by (simp add: ne o'(1) index_def)
  with o'(2) False show ?thesis by (simp add: dropEmpty_def)
qed

lemma relations_checker_succeeds:
  assumes "list_all (relation_decodable role) (entries X)" "distinct (map fst (entries X))"
    and "marshaledRelations X \<noteq> []"
  shows "\<exists>y. StringMap (ifaceExpander (role_limit role)) (VMap (marshaledRelations X)) = Inr y"
proof -
  from assms(3) have "entries X \<noteq> []"
    by (simp add: marshaledRelations_empty_iff [OF assms(2)])
  from relations_roundtrip [OF assms(1,2) this] show ?thesis by blast
qed

lemma GetYAML_checkers_succeed:
  assumes "list_all (relation_decodable RoleProvider) (entries (Provides m))"
    "list_all (relation_decodable RoleRequirer) (entries (Requires m))"
    "list_all (relation_decodable RolePeer) (entries (Peers m))"
    "distinct (map fst (entries (Provides m)))"
    "distinct (map fst (entries (Requires m)))"
    "distinct (map fst (entries (Peers m)))"
  shows "\<forall>(k, c) \<in> set charmSchema_Fields.
           \<forall>x. resolve charmSchema_Defaults (GetYAML_fields m) k = Some x \<longrightarrow> (\<exists>y. c x = Inr y)"
proof -
  note r = relations_checker_succeeds [OF assms(1) assms(4)]
    relations_checker_succeeds [OF assms(2) assms(5)]
    relations_checker_succeeds [OF assms(3) assms(6)]
  show ?thesis
    unfolding charmSchema_Fields_def
    using r
    by (simp add: GetYAML_resolve String_checker_def Int_checker_def Bool_checker_def
        List_checker_strings role_limit_def)
qed

lemma entries_dropEmpty: "entries (dropEmpty x) = entries x"
  by (simp add: dropEmpty_def entries_def)

lemma Check_after_roundtrip:
  assumes "Check v R = None"
  shows "Check v (after_roundtrip R) = None"
proof -
  let ?R = "after_roundtrip R"
  have f: "entries (Provides ?R) = entries (Provides R)"
    "entries (Requires ?R) = entries (Requires R)" "entries (Peers ?R) = entries (Peers R)"
    "Subordinate ?R = Subordinate R" "Series ?R = Series R" "Meta.Name ?R = Meta.Name R"
    "Meta.Storage ?R = None"
    by (simp_all add: after_roundtrip_def entries_dropEmpty)
  from assms have p: "relations_pass R" and t: "Check_tail v R = None"
    by (simp_all add: Check_None_iff)
  have a: "relation_accepted ?R role = relation_accepted R role" for role
    by (simp add: relation_accepted_def f fun_eq_iff)
  from p have p': "relations_pass ?R"
    by (simp add: relations_pass_def f a)
  have ne: "Requires ?R \<noteq> None"
    if "list_ex (\<lambda>(name, relationData). Scope relationData = ScopeContainer) (entries (Requires R))"
    using that by (cases "Requires R") (auto simp: after_roundtrip_def dropEmpty_def entries_def)
  have e0: "entries (Meta.Storage ?R) = []" by (simp add: f(7) entries_def)
  from t have c: "Subordinate R \<longrightarrow>
      list_ex (\<lambda>(name, relationData). Scope relationData = ScopeContainer) (entries (Requires R))"
    and s: "Series R \<noteq> [] \<longrightarrow> v (Series R)"
    by (auto simp: Check_tail_def split: if_splits)
  have "Check_tail v ?R = None"
    unfolding Check_tail_def [of v ?R] f(2,4,5,6) e0
    using c s ne by auto
  with p' show ?thesis by (simp add: Check_None_iff)
qed

lemma decode_of_encoded:
  assumes "Check v R = None" "list_all scope_known (entries (Provides R))"
    "list_all scope_known (entries (Requires R))" "list_all scope_known (entries (Peers R))"
  shows "ReadMeta v (Meta_GetYAML R) = Inr (after_roundtrip R)"
proof -
  note d = Check_relations_decodable [OF assms(1)]
  note dP = d(1) [OF assms(2)] and dR = d(2) [OF assms(3)] and dQ = d(3) [OF assms(4)]
  from FieldMap_apply [of charmSchema_Fields "GetYAML_fields R" charmSchema_Defaults,
      OF _ GetYAML_keys_known GetYAML_checkers_succeed [OF dP dR dQ d(4,5,6)]]
  obtain out where out: "charmSchema (Meta_GetYAML R) = Inr (VMap out)"
    and lk: "\<forall>(k, c) \<in> set charmSchema_Fields. map_of out k =
              (case resolve charmSchema_Defaults (GetYAML_fields R) k of
                 None \<Rightarrow> None
               | Some x \<Rightarrow> (case c x of Inl e \<Rightarrow> None | Inr y \<Rightarrow> Some y))"
    unfolding charmSchema_def Meta_GetYAML_fields
    by (auto simp: charmSchema_Fields_def)
  have l: "map_of out ''name'' = Some (VStr (Meta.Name R))"
    "map_of out ''summary'' = Some (VStr (Summary R))"
    "map_of out ''description'' = Some (VStr (Description R))"
    "map_of out ''revision'' = None"
    "map_of out ''format'' = Some (VInt 1)"
    "map_of out ''subordinate'' = (if Subordinate R then Some (VBool True) else None)"
    "map_of out ''categories'' =
       (if entries (Categories R) = [] then None
        else Some (VList (map VStr (entries (Categories R)))))"
    "map_of out ''tags'' =
       (if entries (Tags R) = [] then None else Some (VList (map VStr (entries (Tags R)))))"
    "map_of out ''series'' = (if Series R = [] then None else Some (VStr (Series R)))"
    "map_of out ''storage'' = None"
    using lk unfolding charmSchema_Fields_def
    by (simp_all add: GetYAML_resolve String_checker_def Int_checker_def Bool_checker_def
        List_checker_strings)
  have rP: "parseRelations (index out ''provides'') RoleProvider = Inr (dropEmpty (Provides R))"
    using lk unfolding charmSchema_Fields_def
    by (intro parseRelations_back [OF dP d(4)]) (simp add: GetYAML_resolve role_limit_def)
  have rR: "parseRelations (index out ''requires'') RoleRequirer = Inr (dropEmpty (Requires R))"
    using lk unfolding charmSchema_Fields_def
    by (intro parseRelations_back [OF dR d(5)]) (simp add: GetYAML_resolve role_limit_def)
  have rQ: "parseRelations (index out ''peers'') RolePeer = Inr (dropEmpty (Peers R))"
    using lk unfolding charmSchema_Fields_def
    by (intro parseRelations_back [OF dQ d(6)]) (simp add: GetYAML_resolve role_limit_def)
  have cats: "parseStringList (index out ''categories'') = Inr (dropEmpty (Categories R))"
    using parseStringList_strings [of "entries (Categories R)"]
    by (cases "Categories R")
       (auto simp: index_def l dropEmpty_def parseStringList_def entries_def)
  have tags: "parseStringList (index out ''tags'') = Inr (dropEmpty (Tags R))"
    using parseStringList_strings [of "entries (Tags R)"]
    by (cases "Tags R")
       (auto simp: index_def l dropEmpty_def parseStringList_def entries_def)
  have i: "index out ''name'' = VStr (Meta.Name R)" "index out ''summary'' = VStr (Summary R)"
    "index out ''description'' = VStr (Description R)" "index out ''revision'' = VNil"
    "index out ''format'' = VInt 1" "index out ''storage'' = VNil"
    by (simp_all add: index_def l)
  have sub: "(if index out ''subordinate'' \<noteq> VNil then assertBool (index out ''subordinate'')
              else Inr False) = Inr (Subordinate R)"
    by (simp add: index_def l assertBool_def)
  have ser: "(case map_of out ''series'' of
                Some series \<Rightarrow> if series \<noteq> VNil then assertString series else Inr []
              | None \<Rightarrow> Inr []) = Inr (Series R)"
    by (simp add: l assertString_def)
  have meta: "\<lparr>Meta.Name = Meta.Name R, Summary = Summary R, Description = Description R,
      Subordinate = Subordinate R, Provides = dropEmpty (Provides R),
      Requires = dropEmpty (Requires R), Peers = dropEmpty (Peers R), Format = 1,
      OldRevision = 0, Categories = dropEmpty (Categories R), Tags = dropEmpty (Tags R),
      Series = Series R, Storage = None\<rparr> = after_roundtrip R"
    by (cases R) (simp add: after_roundtrip_def)
  show ?thesis
    unfolding ReadMeta_def out
    by (simp add: bindE_def assertMap_def assertString_def assertInt64_def
        i rP rR rQ cats tags sub ser parseStorage_def meta Let_def
        Check_after_roundtrip [OF assms(1)])
qed

text \<open>
  C1 as stated fails: the encoder writes neither the format, nor the obsolete revision,
  nor the storage mapping. A document with \<open>format: 2\<close> decodes to a record of format 2,
  whose encoding decodes to a record of format 1; a document with a storage entry decodes
  to a record whose encoding decodes to a record without storage.
\<close>

theorem ReadMeta_GetYAML_roundtrip_counterexample:
  "ReadMeta (\<lambda>series. True) (example_doc [(''format'', VInt 2)])
     = Inr ((example_meta False None None None None)\<lparr>Format := 2\<rparr>) \<and>
   ReadMeta (\<lambda>series. True)
     (Meta_GetYAML ((example_meta False None None None None)\<lparr>Format := 2\<rparr>))
     = Inr (example_meta False None None None None) \<and>
   example_meta False None None None None
     \<noteq> (example_meta False None None None None)\<lparr>Format := 2\<rparr> \<and>
   ReadMeta (\<lambda>series. True) (example_storage_doc [])
     = Inr (example_meta False None None None
              (Some [(''data'', example_storage ''data'' StorageBlock [] None)])) \<and>
   ReadMeta (\<lambda>series. True)
     (Meta_GetYAML (example_meta False None None None
              (Some [(''data'', example_storage ''data'' StorageBlock [] None)])))
     = Inr (example_meta False None None None None) \<and>
   example_meta False None None None None
     \<noteq> example_meta False None None None
              (Some [(''data'', example_storage ''data'' StorageBlock [] None)])"
  by (simp add: example_doc_defs example_defs decode_eval encode_defs)

text \<open>
  C1 as amended: for every record \<open>R\<close> that a successful decode (\<open>ReadMeta\<close>) produced,
  decoding the encoding of \<open>R\<close> succeeds and yields \<open>R\<close> with the format reset to 1, the
  obsolete revision reset to 0, the storage mapping dropped, and every empty mapping or
  list (provides, requires, peers, categories, tags) replaced by nil. Hence it yields \<open>R\<close>
  itself when \<open>R\<close> has format 1, revision 0, no storage and no empty mapping or list that
  is not nil.
\<close>

theorem ReadMeta_GetYAML_roundtrip:
  assumes "ReadMeta v raw = Inr R"
  shows "ReadMeta v (Meta_GetYAML R) = Inr (after_roundtrip R) \<and>
         (Format R = 1 \<and> OldRevision R = 0 \<and> Meta.Storage R = None \<and>
          Provides R \<noteq> Some [] \<and> Requires R \<noteq> Some [] \<and> Peers R \<noteq> Some [] \<and>
          Categories R \<noteq> Some [] \<and> Tags R \<noteq> Some []
          \<longrightarrow> ReadMeta v (Meta_GetYAML R) = Inr R)"
proof -
  note a = ReadMeta_Inr [OF assms]
  have 1: "ReadMeta v (Meta_GetYAML R) = Inr (after_roundtrip R)"
    by (rule decode_of_encoded [OF a])
  have d: "x \<noteq> Some [] \<Longrightarrow> dropEmpty x = x" for x :: "'a list option"
    by (cases x) (auto simp: dropEmpty_def entries_def)
  have "after_roundtrip R = R"
    if "Format R = 1 \<and> OldRevision R = 0 \<and> Meta.Storage R = None \<and>
          Provides R \<noteq> Some [] \<and> Requires R \<noteq> Some [] \<and> Peers R \<noteq> Some [] \<and>
          Categories R \<noteq> Some [] \<and> Tags R \<noteq> Some []"
    using that by (cases R) (simp add: after_roundtrip_def d)
  with 1 show ?thesis by simp
qed

theorem ReadMeta_GetYAML_roundtrip_witness:
  "ReadMeta (\<lambda>series. True)
     (example_doc [(''subordinate'', VBool True),
        (''requires'', VMap [(''host'', VMap [(''interface'', VStr ''juju-info''),
                                              (''scope'', VStr ScopeContainer)])])])
     = Inr (example_meta True None
         (Some [(''host'', example_relation ''host'' RoleRequirer ''juju-info'' ScopeContainer)])
         None None) \<and>
   ReadMeta (\<lambda>series. True)
     (Meta_GetYAML (example_meta True None
         (Some [(''host'', example_relation ''host'' RoleRequirer ''juju-info'' ScopeContainer)])
         None None))
     = Inr (example_meta True None
         (Some [(''host'', example_relation ''host'' RoleRequirer ''juju-info'' ScopeContainer)])
         None None)"
proof -
  let ?R = "example_meta True None
         (Some [(''host'', example_relation ''host'' RoleRequirer ''juju-info'' ScopeContainer)])
         None None"
  have h: "ReadMeta (\<lambda>series. True)
     (example_doc [(''subordinate'', VBool True),
        (''requires'', VMap [(''host'', VMap [(''interface'', VStr ''juju-info''),
                                              (''scope'', VStr ScopeContainer)])])]) = Inr ?R"
    by (simp add: example_doc_defs example_defs decode_eval)
  from ReadMeta_GetYAML_roundtrip [OF h] have "ReadMeta (\<lambda>series. True) (Meta_GetYAML ?R) = Inr ?R"
    by (simp add: example_defs after_roundtrip_def dropEmpty_def entries_def)
  with h show ?thesis by simp
qed

end
